theory Spec2Isabelle
  imports Main "HOL-Library.Sublist" "HOL-Library.Log_Nat"
begin

section \<open>Python values\<close>

text \<open>
  The exceptions the modelled code can raise. A computation that may raise returns a
  value of \<open>exn + 'a\<close>, with \<open>Inl\<close> for the exception.
\<close>

datatype exn = TypeError | ValueError | KeyError | AttributeError | NameError | OverflowError

text \<open>
  A Python \<open>float\<close> (IEEE binary64): a finite value is carried as the rational it is
  exactly equal to; the negative zero, the infinities and the NaN are separate values.
\<close>

datatype pyfloat = Finite rat | NegZero | PosInf | NegInf | NaN

text \<open>
  JSON-like Python values. A \<open>dict\<close> is an association list in insertion order,
  since the code iterates over \<open>result.items()\<close>. Strings are lists of 8-bit
  characters, so the model covers the Latin-1 part of Python's \<open>str\<close>.
\<close>

datatype json =
    JNull
  | JBool bool
  | JInt int
  | JFloat pyfloat
  | JStr string
  | JList "json list"
  | JDict "(string \<times> json) list"

section \<open>Strings\<close>

text \<open>\<open>sub in s\<close> for two strings: \<open>sub\<close> occurs in \<open>s\<close> as a contiguous run.\<close>

fun str_in :: "string \<Rightarrow> string \<Rightarrow> bool" where
  "str_in sub [] = (sub = [])"
| "str_in sub (c # cs) = (prefix sub (c # cs) \<or> str_in sub cs)"

text \<open>\<open>s.endswith(suf)\<close>.\<close>

definition endswith :: "string \<Rightarrow> string \<Rightarrow> bool" where
  "endswith s suf = suffix suf s"

text \<open>
  \<open>s.replace(old, new)\<close>: the occurrences of \<open>old\<close> are replaced from left to right,
  without overlap. For an empty \<open>old\<close> Python puts \<open>new\<close> before every character and
  at the end.
\<close>

function py_replace :: "string \<Rightarrow> string \<Rightarrow> string \<Rightarrow> string" where
  "py_replace old new s =
     (if old = [] then concat (map (\<lambda>c. new @ [c]) s) @ new
      else if s = [] then []
      else if prefix old s then new @ py_replace old new (drop (length old) s)
      else hd s # py_replace old new (tl s))"
  by pat_completeness auto
termination
  by (relation "measure (\<lambda>(old, new, s). length s)") (auto simp: neq_Nil_conv)

declare py_replace.simps [simp del]

text \<open>The characters \<open>str.isspace\<close> accepts, in the Latin-1 range.\<close>

definition is_space :: "char \<Rightarrow> bool" where
  "is_space c = ((of_char c :: nat) \<in> {9, 10, 11, 12, 13, 28, 29, 30, 31, 32, 133, 160})"

definition is_digit :: "char \<Rightarrow> bool" where
  "is_digit c = (48 \<le> (of_char c :: nat) \<and> (of_char c :: nat) \<le> 57)"

definition digit_val :: "char \<Rightarrow> nat" where
  "digit_val c = of_char c - 48"

text \<open>\<open>s.strip()\<close>.\<close>

definition py_strip :: "string \<Rightarrow> string" where
  "py_strip s = rev (dropWhile is_space (rev (dropWhile is_space s)))"

text \<open>\<open>sep.join(xs)\<close>.\<close>

fun py_join :: "string \<Rightarrow> string list \<Rightarrow> string" where
  "py_join sep [] = []"
| "py_join sep [x] = x"
| "py_join sep (x # y # ys) = x @ sep @ py_join sep (y # ys)"

text \<open>ASCII lower case, as used by the case-insensitive keywords of \<open>float\<close>.\<close>

definition lower_char :: "char \<Rightarrow> char" where
  "lower_char c =
     (if 65 \<le> (of_char c :: nat) \<and> (of_char c :: nat) \<le> 90
      then char_of ((of_char c :: nat) + 32) else c)"

text \<open>Decimal rendering of a natural number and of an integer (\<open>str(n)\<close>).\<close>

definition digit_char :: "nat \<Rightarrow> char" where
  "digit_char d = char_of (48 + d)"

fun show_nat :: "nat \<Rightarrow> string" where
  "show_nat n = (if n < 10 then [digit_char n] else show_nat (n div 10) @ [digit_char (n mod 10)])"

declare show_nat.simps [simp del]

definition show_int :: "int \<Rightarrow> string" where
  "show_int i = (if i < 0 then CHR ''-'' # show_nat (nat (- i)) else show_nat (nat i))"

section \<open>Numbers from strings\<close>

text \<open>
  A run of decimal digits in which single underscores may separate digits, as \<open>int\<close>
  and \<open>float\<close> accept it. The flag says whether the previous character was a digit;
  the result is the value and the number of digits.
\<close>

fun digits_us :: "bool \<Rightarrow> nat \<Rightarrow> nat \<Rightarrow> string \<Rightarrow> (nat \<times> nat) option" where
  "digits_us prev acc n [] = (if prev then Some (acc, n) else None)"
| "digits_us prev acc n (c # cs) =
     (if is_digit c then digits_us True (acc * 10 + digit_val c) (Suc n) cs
      else if c = CHR ''_'' \<and> prev then digits_us False acc n cs
      else None)"

text \<open>
  The default of \<open>sys.get_int_max_str_digits()\<close>: \<open>int\<close> refuses a decimal string with
  more digits.
\<close>

definition int_max_str_digits :: nat where
  "int_max_str_digits = 4300"

text \<open>
  \<open>int(s)\<close> for a string, base ten: surrounding whitespace is dropped, one sign is
  allowed, the rest is a digit run. \<open>None\<close> stands for the \<open>ValueError\<close>.
\<close>

definition split_sign :: "string \<Rightarrow> bool \<times> string" where
  "split_sign s =
     (case s of
        [] \<Rightarrow> (False, [])
      | c # cs \<Rightarrow> if c = CHR ''-'' then (True, cs) else if c = CHR ''+'' then (False, cs) else (False, s))"

definition py_int :: "string \<Rightarrow> int option" where
  "py_int s =
     (let (neg, body) = split_sign (py_strip s) in
      case digits_us False 0 0 body of
        None \<Rightarrow> None
      | Some (v, n) \<Rightarrow>
          if n > int_max_str_digits then None
          else Some (if neg then - int v else int v))"

text \<open>Powers of two with an integer exponent, and \<open>\<lfloor>log\<^sub>2 q\<rfloor>\<close> for a positive rational.\<close>

definition pow2 :: "int \<Rightarrow> rat" where
  "pow2 e = (if 0 \<le> e then 2 ^ nat e else 1 / 2 ^ nat (- e))"

definition ilog2 :: "rat \<Rightarrow> int" where
  "ilog2 q =
     (let (a, b) = quotient_of q; e = bitlen a - bitlen b
      in if pow2 e \<le> q then e else e - 1)"

definition round_half_even :: "rat \<Rightarrow> int" where
  "round_half_even q =
     (let f = \<lfloor>q\<rfloor>; r = q - of_int f
      in if r < 1 / 2 then f else if 1 / 2 < r then f + 1 else if even f then f else f + 1)"

text \<open>
  Rounding of a non-zero rational to binary64, to nearest with ties to even: 53 bits
  of precision, subnormals spaced \<open>2\<^sup>-\<^sup>1\<^sup>0\<^sup>7\<^sup>4\<close> apart, overflow to an infinity, underflow to
  a zero of the same sign.
\<close>

definition round64 :: "rat \<Rightarrow> pyfloat" where
  "round64 q =
     (if q = 0 then Finite 0
      else
        let a = \<bar>q\<bar>;
            p = max (ilog2 a - 52) (- 1074);
            m = round_half_even (a / pow2 p);
            v = of_int m * pow2 p
        in if pow2 1024 \<le> v then (if 0 < q then PosInf else NegInf)
           else if m = 0 then (if 0 < q then Finite 0 else NegZero)
           else Finite (if 0 < q then v else - v))"

definition is_zero :: "pyfloat \<Rightarrow> bool" where
  "is_zero f = (f = Finite 0 \<or> f = NegZero)"

definition is_neg :: "pyfloat \<Rightarrow> bool" where
  "is_neg f = (case f of Finite q \<Rightarrow> q < 0 | NegZero \<Rightarrow> True | NegInf \<Rightarrow> True | _ \<Rightarrow> False)"

definition is_inf :: "pyfloat \<Rightarrow> bool" where
  "is_inf f = (f = PosInf \<or> f = NegInf)"

definition fval :: "pyfloat \<Rightarrow> rat" where
  "fval f = (case f of Finite q \<Rightarrow> q | _ \<Rightarrow> 0)"

text \<open>IEEE multiplication and addition, rounded to nearest.\<close>

definition float_mul :: "pyfloat \<Rightarrow> pyfloat \<Rightarrow> pyfloat" where
  "float_mul x y =
     (if x = NaN \<or> y = NaN then NaN
      else if (is_inf x \<and> is_zero y) \<or> (is_zero x \<and> is_inf y) then NaN
      else if is_inf x \<or> is_inf y then (if is_neg x \<noteq> is_neg y then NegInf else PosInf)
      else if is_zero x \<or> is_zero y then (if is_neg x \<noteq> is_neg y then NegZero else Finite 0)
      else round64 (fval x * fval y))"

definition float_add :: "pyfloat \<Rightarrow> pyfloat \<Rightarrow> pyfloat" where
  "float_add x y =
     (if x = NaN \<or> y = NaN then NaN
      else if is_inf x \<and> is_inf y then (if x = y then x else NaN)
      else if is_inf x then x
      else if is_inf y then y
      else if is_zero x \<and> is_zero y then (if x = NegZero \<and> y = NegZero then NegZero else Finite 0)
      else if is_zero x then y
      else if is_zero y then x
      else round64 (fval x + fval y))"

text \<open>
  The conversion of an \<open>int\<close> operand to \<open>float\<close>; an integer beyond the range of
  binary64 raises \<open>OverflowError\<close>.
\<close>

definition float_of_int :: "int \<Rightarrow> exn + pyfloat" where
  "float_of_int i =
     (let f = round64 (of_int i) in if is_inf f then Inl OverflowError else Inr f)"

text \<open>
  \<open>float(s)\<close> for a string: surrounding whitespace is dropped, one sign is allowed,
  then either one of the words \<open>inf\<close>, \<open>infinity\<close>, \<open>nan\<close> in any case, or a decimal
  numeral with an optional fraction and an optional exponent. \<open>None\<close> stands for
  the \<open>ValueError\<close>. The value of the numeral is rounded once.
\<close>

definition opt_digits :: "string \<Rightarrow> (nat \<times> nat) option" where
  "opt_digits s = (if s = [] then Some (0, 0) else digits_us False 0 0 s)"

definition parse_mantissa :: "string \<Rightarrow> rat option" where
  "parse_mantissa s =
     (let ip = takeWhile (\<lambda>c. c \<noteq> CHR ''.'') s;
          r = dropWhile (\<lambda>c. c \<noteq> CHR ''.'') s
      in if r = [] then map_option (\<lambda>(v, n). of_int (int v)) (digits_us False 0 0 ip)
         else if ip = [] \<and> tl r = [] then None
         else case (opt_digits ip, opt_digits (tl r)) of
                (Some (iv, _), Some (fv, fn)) \<Rightarrow> Some (of_int (int iv) + of_int (int fv) / 10 ^ fn)
              | _ \<Rightarrow> None)"

definition parse_exponent :: "string \<Rightarrow> int option" where
  "parse_exponent s =
     (let (neg, body) = split_sign s in
      map_option (\<lambda>(v, n). if neg then - int v else int v) (digits_us False 0 0 body))"

definition pow10 :: "int \<Rightarrow> rat" where
  "pow10 e = (if 0 \<le> e then 10 ^ nat e else 1 / 10 ^ nat (- e))"

definition is_e :: "char \<Rightarrow> bool" where
  "is_e c = (c = CHR ''e'' \<or> c = CHR ''E'')"

definition parse_decimal :: "string \<Rightarrow> rat option" where
  "parse_decimal s =
     (let m = takeWhile (\<lambda>c. \<not> is_e c) s;
          r = dropWhile (\<lambda>c. \<not> is_e c) s
      in if r = [] then parse_mantissa m
         else case (parse_mantissa m, parse_exponent (tl r)) of
                (Some q, Some e) \<Rightarrow> Some (q * pow10 e)
              | _ \<Rightarrow> None)"

definition py_float :: "string \<Rightarrow> pyfloat option" where
  "py_float s =
     (let (neg, body) = split_sign (py_strip s);
          w = map lower_char body
      in if w = ''inf'' \<or> w = ''infinity'' then Some (if neg then NegInf else PosInf)
         else if w = ''nan'' then Some NaN
         else case parse_decimal body of
                None \<Rightarrow> None
              | Some q \<Rightarrow>
                  Some (if q = 0 then (if neg then NegZero else Finite 0)
                        else round64 (if neg then - q else q)))"

section \<open>Duration strings (tools/events.py)\<close>

text \<open>The number \<open>convert_duration\<close> returns: an \<open>int\<close> or a \<open>float\<close>.\<close>

datatype pynum = PyInt int | PyFloat pyfloat

definition int_of_str :: "string \<Rightarrow> exn + int" where
  "int_of_str s = (case py_int s of None \<Rightarrow> Inl ValueError | Some i \<Rightarrow> Inr i)"

definition float_of_str :: "string \<Rightarrow> exn + pyfloat" where
  "float_of_str s = (case py_float s of None \<Rightarrow> Inl ValueError | Some f \<Rightarrow> Inr f)"

text \<open>
  \<open>convert_duration\<close> on a string, branch by branch: containment tests with \<open>in\<close>,
  removal of every occurrence of the unit with \<open>replace\<close>.
\<close>

definition convert_duration :: "string \<Rightarrow> exn + pynum" where
  "convert_duration duration =
     (if str_in ''km'' duration then
        (case float_of_str (py_replace ''km'' '''' duration) of
           Inl e \<Rightarrow> Inl e
         | Inr f \<Rightarrow> Inr (PyFloat (float_mul f (Finite 1000))))
      else if str_in ''m'' duration \<and> \<not> endswith duration ''km'' then
        (case int_of_str (py_replace ''m'' '''' duration) of
           Inl e \<Rightarrow> Inl e
         | Inr i \<Rightarrow> Inr (PyInt (i * 60)))
      else if str_in ''s'' duration then
        (case int_of_str (py_replace ''s'' '''' duration) of
           Inl e \<Rightarrow> Inl e
         | Inr i \<Rightarrow> Inr (PyInt i))
      else
        (case int_of_str duration of
           Inl e \<Rightarrow> Inl e
         | Inr i \<Rightarrow> Inr (PyInt i)))"

text \<open>
  The suffix rules as the specification words them: a trailing \<open>km\<close> turns the
  numeric prefix into meters, a trailing \<open>m\<close> turns minutes into seconds, a trailing
  \<open>s\<close> is seconds, anything else is a bare integer.
\<close>

definition convert_duration_spec :: "string \<Rightarrow> exn + pynum" where
  "convert_duration_spec duration =
     (if endswith duration ''km'' then
        (case float_of_str (take (length duration - 2) duration) of
           Inl e \<Rightarrow> Inl e
         | Inr f \<Rightarrow> Inr (PyFloat (float_mul f (Finite 1000))))
      else if endswith duration ''m'' then
        (case int_of_str (butlast duration) of
           Inl e \<Rightarrow> Inl e
         | Inr i \<Rightarrow> Inr (PyInt (i * 60)))
      else if endswith duration ''s'' then
        (case int_of_str (butlast duration) of
           Inl e \<Rightarrow> Inl e
         | Inr i \<Rightarrow> Inr (PyInt i))
      else
        (case int_of_str duration of
           Inl e \<Rightarrow> Inl e
         | Inr i \<Rightarrow> Inr (PyInt i)))"

section \<open>Operations on JSON values\<close>

text \<open>Sequencing of computations that may raise.\<close>

definition bind :: "exn + 'a \<Rightarrow> ('a \<Rightarrow> exn + 'b) \<Rightarrow> exn + 'b" where
  "bind m f = (case m of Inl e \<Rightarrow> Inl e | Inr x \<Rightarrow> f x)"

definition nl :: string where
  "nl = [CHR 0x0A]"

text \<open>\<open>isinstance(x, dict)\<close>, \<open>isinstance(x, list)\<close> and the truth value of \<open>x\<close>.\<close>

fun is_dict :: "json \<Rightarrow> bool" where
  "is_dict (JDict kvs) = True"
| "is_dict v = False"

fun is_list :: "json \<Rightarrow> bool" where
  "is_list (JList xs) = True"
| "is_list v = False"

fun truthy :: "json \<Rightarrow> bool" where
  "truthy JNull = False"
| "truthy (JBool b) = b"
| "truthy (JInt i) = (i \<noteq> 0)"
| "truthy (JFloat f) = (\<not> is_zero f)"
| "truthy (JStr s) = (s \<noteq> [])"
| "truthy (JList xs) = (xs \<noteq> [])"
| "truthy (JDict kvs) = (kvs \<noteq> [])"

text \<open>\<open>key in d\<close>, \<open>d.get(key)\<close> and \<open>d.get(key, default)\<close> for a dict \<open>d\<close>.\<close>

definition has_key :: "(string \<times> json) list \<Rightarrow> string \<Rightarrow> bool" where
  "has_key kvs k = (map_of kvs k \<noteq> None)"

definition dict_get :: "(string \<times> json) list \<Rightarrow> string \<Rightarrow> json" where
  "dict_get kvs k = (case map_of kvs k of None \<Rightarrow> JNull | Some v \<Rightarrow> v)"

definition dict_get_default :: "(string \<times> json) list \<Rightarrow> string \<Rightarrow> json \<Rightarrow> json" where
  "dict_get_default kvs k d = (case map_of kvs k of None \<Rightarrow> d | Some v \<Rightarrow> v)"

text \<open>
  \<open>x[key]\<close> with a string key: a missing key of a dict raises \<open>KeyError\<close>; every other
  JSON value raises \<open>TypeError\<close> (not subscriptable, or indices must be integers).
\<close>

fun subscript :: "json \<Rightarrow> string \<Rightarrow> exn + json" where
  "subscript (JDict kvs) k = (case map_of kvs k of None \<Rightarrow> Inl KeyError | Some v \<Rightarrow> Inr v)"
| "subscript v k = Inl TypeError"

text \<open>
  \<open>x.get(key, default)\<close> on any JSON value: only a dict has the method, the rest raise
  \<open>AttributeError\<close>.
\<close>

fun method_get :: "json \<Rightarrow> string \<Rightarrow> json \<Rightarrow> exn + json" where
  "method_get (JDict kvs) k d = Inr (dict_get_default kvs k d)"
| "method_get v k d = Inl AttributeError"

text \<open>
  The items a \<open>for\<close> loop draws from a value: the elements of a list, the keys of a
  dict, the characters of a string; the other values are not iterable.
\<close>

fun py_iter :: "json \<Rightarrow> exn + json list" where
  "py_iter (JList xs) = Inr xs"
| "py_iter (JDict kvs) = Inr (map (\<lambda>kv. JStr (fst kv)) kvs)"
| "py_iter (JStr s) = Inr (map (\<lambda>c. JStr [c]) s)"
| "py_iter v = Inl TypeError"

text \<open>\<open>x in v\<close> for a string \<open>x\<close> and any JSON value \<open>v\<close>.\<close>

fun py_contains :: "string \<Rightarrow> json \<Rightarrow> exn + bool" where
  "py_contains x (JStr s) = Inr (str_in x s)"
| "py_contains x (JList xs) = Inr (JStr x \<in> set xs)"
| "py_contains x (JDict kvs) = Inr (has_key kvs x)"
| "py_contains x v = Inl TypeError"

text \<open>
  \<open>str(v)\<close>, as an f-string renders a value. The text of a float, a list or a dict is
  left to the parameter \<open>repr\<close>.
\<close>

fun py_str :: "(json \<Rightarrow> string) \<Rightarrow> json \<Rightarrow> string" where
  "py_str repr JNull = ''None''"
| "py_str repr (JBool b) = (if b then ''True'' else ''False'')"
| "py_str repr (JInt i) = show_int i"
| "py_str repr (JStr s) = s"
| "py_str repr v = repr v"

text \<open>\<open>xs[:n]\<close>: a negative bound counts from the end.\<close>

definition py_slice_to :: "'a list \<Rightarrow> int \<Rightarrow> 'a list" where
  "py_slice_to xs n = (if 0 \<le> n then take (nat n) xs else take (nat (int (length xs) + n)) xs)"

text \<open>Comparison of two strings with \<open><\<close>: lexicographic, by code point.\<close>

fun str_less :: "string \<Rightarrow> string \<Rightarrow> bool" where
  "str_less [] [] = False"
| "str_less [] (y # ys) = True"
| "str_less (x # xs) [] = False"
| "str_less (x # xs) (y # ys) =
     ((of_char x :: nat) < of_char y \<or> (x = y \<and> str_less xs ys))"

text \<open>Arithmetic of \<open>sum\<close>: an \<open>int\<close> meeting a \<open>float\<close> is converted first.\<close>

fun py_add :: "pynum \<Rightarrow> pynum \<Rightarrow> exn + pynum" where
  "py_add (PyInt a) (PyInt b) = Inr (PyInt (a + b))"
| "py_add (PyInt a) (PyFloat g) = bind (float_of_int a) (\<lambda>f. Inr (PyFloat (float_add f g)))"
| "py_add (PyFloat f) (PyInt b) = bind (float_of_int b) (\<lambda>g. Inr (PyFloat (float_add f g)))"
| "py_add (PyFloat f) (PyFloat g) = Inr (PyFloat (float_add f g))"

fun json_of_num :: "pynum \<Rightarrow> json" where
  "json_of_num (PyInt i) = JInt i"
| "json_of_num (PyFloat f) = JFloat f"

section \<open>Dates\<close>

text \<open>
  A calendar date (year, month, day) of the proleptic Gregorian calendar, years 1 to
  9999, as \<open>datetime\<close> has it. The time of day plays no part: every date the tools
  use is rendered with \<open>strftime("%Y-%m-%d")\<close>.
\<close>

type_synonym date = "nat \<times> nat \<times> nat"

definition leap_year :: "nat \<Rightarrow> bool" where
  "leap_year y = (y mod 4 = 0 \<and> (y mod 100 \<noteq> 0 \<or> y mod 400 = 0))"

definition days_in_month :: "nat \<Rightarrow> nat \<Rightarrow> nat" where
  "days_in_month y m =
     (if m = 2 then (if leap_year y then 29 else 28)
      else if m = 4 \<or> m = 6 \<or> m = 9 \<or> m = 11 then 30 else 31)"

fun valid_date :: "date \<Rightarrow> bool" where
  "valid_date (y, m, d) =
     (1 \<le> y \<and> y \<le> 9999 \<and> 1 \<le> m \<and> m \<le> 12 \<and> 1 \<le> d \<and> d \<le> days_in_month y m)"

fun date_less :: "date \<Rightarrow> date \<Rightarrow> bool" where
  "date_less (y, m, d) (y', m', d') =
     (y < y' \<or> (y = y' \<and> (m < m' \<or> (m = m' \<and> d < d'))))"

text \<open>
  The day before and the day after; \<open>None\<close> where the result would leave the years 1
  to 9999, which \<open>datetime\<close> reports as \<open>OverflowError\<close>.
\<close>

fun prev_day :: "date \<Rightarrow> date option" where
  "prev_day (y, m, d) =
     (if 1 < d then Some (y, m, d - 1)
      else if 1 < m then Some (y, m - 1, days_in_month y (m - 1))
      else if 1 < y then Some (y - 1, 12, 31)
      else None)"

fun next_day :: "date \<Rightarrow> date option" where
  "next_day (y, m, d) =
     (if d < days_in_month y m then Some (y, m, d + 1)
      else if m < 12 then Some (y, m + 1, 1)
      else if y < 9999 then Some (y + 1, 1, 1)
      else None)"

text \<open>\<open>dt - timedelta(days=n)\<close> and \<open>dt + timedelta(days=n)\<close>.\<close>

fun minus_days :: "nat \<Rightarrow> date \<Rightarrow> date option" where
  "minus_days 0 dt = Some dt"
| "minus_days (Suc n) dt = (case prev_day dt of None \<Rightarrow> None | Some p \<Rightarrow> minus_days n p)"

fun plus_days :: "nat \<Rightarrow> date \<Rightarrow> date option" where
  "plus_days 0 dt = Some dt"
| "plus_days (Suc n) dt = (case next_day dt of None \<Rightarrow> None | Some p \<Rightarrow> plus_days n p)"

definition date_minus :: "date \<Rightarrow> nat \<Rightarrow> exn + date" where
  "date_minus dt n = (case minus_days n dt of None \<Rightarrow> Inl OverflowError | Some r \<Rightarrow> Inr r)"

definition date_plus :: "date \<Rightarrow> nat \<Rightarrow> exn + date" where
  "date_plus dt n = (case plus_days n dt of None \<Rightarrow> Inl OverflowError | Some r \<Rightarrow> Inr r)"

text \<open>
  \<open>dt.strftime("%Y-%m-%d")\<close>: month and day in two digits, padded with a zero; the year
  as the C library prints it, which on Linux (glibc) is the plain decimal numeral,
  so that a year below 1000 has fewer than four digits. From the year 1000 on the
  year has its four digits on every platform.
\<close>

definition two_digits :: "nat \<Rightarrow> string" where
  "two_digits n = [digit_char (n div 10 mod 10), digit_char (n mod 10)]"

definition four_digits :: "nat \<Rightarrow> string" where
  "four_digits n =
     [digit_char (n div 1000 mod 10), digit_char (n div 100 mod 10),
      digit_char (n div 10 mod 10), digit_char (n mod 10)]"

fun strftime :: "date \<Rightarrow> string" where
  "strftime (y, m, d) = show_nat y @ ''-'' @ two_digits m @ ''-'' @ two_digits d"

text \<open>
  \<open>datetime.fromisoformat(s)\<close>; \<open>None\<close> stands for the \<open>ValueError\<close>. A string of the
  form \<open>dddd-dd-dd\<close> is the date it spells when that is a valid date, and raises
  otherwise. Which other strings are accepted (date-time strings, and from Python 3.11
  on the basic format and week dates) depends on the Python version: the date of
  such a string is given by the parameter \<open>other\<close>. A \<open>datetime\<close> is always a valid
  date.
\<close>

definition dec_val :: "string \<Rightarrow> nat" where
  "dec_val s = foldl (\<lambda>a c. 10 * a + digit_val c) 0 s"

definition date_only :: "string \<Rightarrow> bool" where
  "date_only s =
     (length s = 10 \<and> s ! 4 = CHR ''-'' \<and> s ! 7 = CHR ''-''
      \<and> list_all is_digit (take 4 s) \<and> list_all is_digit (take 2 (drop 5 s))
      \<and> list_all is_digit (drop 8 s))"

definition fromisoformat :: "(string \<Rightarrow> date option) \<Rightarrow> string \<Rightarrow> date option" where
  "fromisoformat other s =
     (if date_only s then
        let dt = (dec_val (take 4 s), dec_val (take 2 (drop 5 s)), dec_val (drop 8 s))
        in if valid_date dt then Some dt else None
      else
        (case other s of
           None \<Rightarrow> None
         | Some dt \<Rightarrow> if valid_date dt then Some dt else None))"

definition parse_date :: "(string \<Rightarrow> date option) \<Rightarrow> string \<Rightarrow> exn + date" where
  "parse_date other s =
     (case fromisoformat other s of None \<Rightarrow> Inl ValueError | Some d \<Rightarrow> Inr d)"

section \<open>Character classes of numerals\<close>

text \<open>
  The characters that can occur in a string \<open>int\<close> accepts, and in one \<open>float\<close>
  accepts.
\<close>

definition sign_char :: "char \<Rightarrow> bool" where
  "sign_char c = (c = CHR ''-'' \<or> c = CHR ''+'')"

definition float_char :: "char \<Rightarrow> bool" where
  "float_char c =
     (is_digit c \<or> c = CHR ''_'' \<or> c = CHR ''.'' \<or> is_e c \<or> sign_char c \<or> is_space c
      \<or> lower_char c \<in> set ''infinityan'')"

definition int_char :: "char \<Rightarrow> bool" where
  "int_char c = (is_digit c \<or> c = CHR ''_'' \<or> sign_char c \<or> is_space c)"

section \<open>The HTTP gateway (utils/functions.py)\<close>

text \<open>
  A request as the gateway issues it: method, path below the base URL, API key (the
  password of the Basic authentication), query parameters and, for a POST, the payload.
\<close>

datatype http_method = GET | POST

datatype request =
  Request http_method string string "(string \<times> json) list option" "json option"

text \<open>
  What the HTTP client does with a request: a response with its status code, its body
  text and the JSON value the body decodes to (\<open>None\<close> when it is not JSON), or an
  \<open>httpx.RequestError\<close>, or any other exception, each with its message.
\<close>

datatype http_outcome =
    Response nat string "json option"
  | RequestError string
  | OtherError string

text \<open>
  The names bound at module level in \<open>utils/functions.py\<close>: its imports, its two
  constants and its two functions. Looking up any other name that is not a builtin
  raises \<open>NameError\<close>. The module calls \<open>logger.error\<close> in each of its exception handlers.
\<close>

definition functions_globals :: "string list" where
  "functions_globals =
     [''httpx'', ''HTTPStatus'', ''json'', ''Any'', ''os'', ''load_dotenv'', ''_'',
      ''INTERVALS_API_BASE_URL'', ''USER_AGENT'', ''make_intervals_request'',
      ''post_intervals_data'']"

definition load_global :: "string \<Rightarrow> exn + unit" where
  "load_global name = (if name \<in> set functions_globals then Inr () else Inl NameError)"

definition logger_error :: "exn + unit" where
  "logger_error = load_global ''logger''"

text \<open>The members of \<open>http.HTTPStatus\<close>, and the phrases of those in the table.\<close>

definition http_status_codes :: "nat list" where
  "http_status_codes =
     [100, 101, 102, 103, 200, 201, 202, 203, 204, 205, 206, 207, 208, 226,
      300, 301, 302, 303, 304, 305, 307, 308,
      400, 401, 402, 403, 404, 405, 406, 407, 408, 409, 410, 411, 412, 413, 414, 415,
      416, 417, 418, 421, 422, 423, 424, 425, 426, 428, 429, 431, 451,
      500, 501, 502, 503, 504, 505, 506, 507, 508, 510, 511]"

definition status_line :: "nat \<Rightarrow> string \<Rightarrow> string \<Rightarrow> nat \<times> string" where
  "status_line code phrase msg = (code, show_nat code @ '' '' @ phrase @ '': '' @ msg)"

definition error_messages :: "(nat \<times> string) list" where
  "error_messages =
     [status_line 401 ''Unauthorized'' ''Please check your API key.'',
      status_line 403 ''Forbidden'' ''You may not have permission to access this resource.'',
      status_line 404 ''Not Found'' ''The requested endpoint or ID doesn't exist.'',
      status_line 422 ''Unprocessable Entity''
        ''The server couldn't process the request (invalid parameters or unsupported operation).'',
      status_line 429 ''Too Many Requests'' ''Too many requests in a short time period.'',
      status_line 500 ''Internal Server Error''
        ''The Intervals.icu server encountered an internal error.'',
      status_line 503 ''Service Unavailable''
        ''The Intervals.icu server might be down or undergoing maintenance.'']"

text \<open>
  The message for a status: \<open>HTTPStatus(error_code)\<close> raises \<open>ValueError\<close> for a code
  that is no member, and the handler of that falls back to the body text, as the
  table lookup does for a member without an entry.
\<close>

definition custom_message :: "nat \<Rightarrow> string \<Rightarrow> string" where
  "custom_message error_code error_text =
     (if error_code \<in> set http_status_codes
      then (case map_of error_messages error_code of None \<Rightarrow> error_text | Some m \<Rightarrow> m)
      else error_text)"

definition status_envelope :: "nat \<Rightarrow> string \<Rightarrow> json" where
  "status_envelope error_code error_text =
     JDict [(''error'', JBool True), (''status_code'', JInt (int error_code)),
            (''message'', JStr (custom_message error_code error_text))]"

definition message_envelope :: "string \<Rightarrow> json" where
  "message_envelope msg = JDict [(''error'', JBool True), (''message'', JStr msg)]"

text \<open>
  The three \<open>except\<close> clauses, each starting with its call of \<open>logger.error\<close>. An
  exception raised inside a handler leaves the \<open>try\<close> statement: the clauses after it
  do not catch it.
\<close>

definition on_http_status_error :: "nat \<Rightarrow> string \<Rightarrow> exn + json" where
  "on_http_status_error error_code error_text =
     bind logger_error (\<lambda>_. Inr (status_envelope error_code error_text))"

definition on_request_error :: "string \<Rightarrow> exn + json" where
  "on_request_error msg = bind logger_error (\<lambda>_. Inr (message_envelope (''Request error: '' @ msg)))"

definition on_exception :: "string \<Rightarrow> exn + json" where
  "on_exception msg = bind logger_error (\<lambda>_. Inr (message_envelope (''Unexpected error: '' @ msg)))"

text \<open>
  The body of the \<open>try\<close>, after the client has answered: \<open>raise_for_status\<close> raises for
  every status outside 200 to 299; an empty body gives an empty dict; a body that does
  not decode raises inside the \<open>try\<close> and is caught by the last clause.
\<close>

definition json_decode_error :: string where
  "json_decode_error = ''Expecting value: line 1 column 1 (char 0)''"

definition handle_outcome :: "http_outcome \<Rightarrow> exn + json" where
  "handle_outcome out =
     (case out of
        Response status text decoded \<Rightarrow>
          if 200 \<le> status \<and> status < 300 then
            (if text = [] then Inr (JDict [])
             else case decoded of Some v \<Rightarrow> Inr v | None \<Rightarrow> on_exception json_decode_error)
          else on_http_status_error status text
      | RequestError msg \<Rightarrow> on_request_error msg
      | OtherError msg \<Rightarrow> on_exception msg)"

text \<open>
  The two gateway functions, over the behaviour \<open>http\<close> of the client and the remote
  service. Every call site passes the API key as a string.
\<close>

definition make_intervals_request ::
  "(request \<Rightarrow> http_outcome) \<Rightarrow> string \<Rightarrow> string \<Rightarrow> (string \<times> json) list option \<Rightarrow> exn + json" where
  "make_intervals_request http url api_key params =
     handle_outcome (http (Request GET url api_key params None))"

definition post_intervals_data ::
  "(request \<Rightarrow> http_outcome) \<Rightarrow> json \<Rightarrow> string \<Rightarrow> string \<Rightarrow> (string \<times> json) list option \<Rightarrow> exn + json" where
  "post_intervals_data http data url api_key params =
     handle_outcome (http (Request POST url api_key params (Some data)))"

text \<open>The gateway as the tools see it: one awaited call per request.\<close>

fun intervals_gateway :: "(request \<Rightarrow> http_outcome) \<Rightarrow> request \<Rightarrow> exn + json" where
  "intervals_gateway http (Request GET url api_key params data) =
     make_intervals_request http url api_key params"
| "intervals_gateway http (Request POST url api_key params data) =
     post_intervals_data http (case data of None \<Rightarrow> JNull | Some d \<Rightarrow> d) url api_key params"

section \<open>The tools (tools/activities.py, tools/events.py)\<close>

text \<open>
  What a tool invocation depends on besides its arguments: the outcome of each awaited
  gateway call, the two defaults of \<open>config/defaults.py\<close>, the day \<open>datetime.now()\<close>
  falls on, the formatters of \<open>utils/formatting.py\<close> (not among the sources, hence
  parameters), the text Python gives floats, lists and dicts, and what
  \<open>datetime.fromisoformat\<close> makes of a string that is not of the form \<open>dddd-dd-dd\<close>.
\<close>

record env =
  gateway :: "request \<Rightarrow> exn + json"
  API_KEY :: string
  ATHLETE_ID :: string
  today :: date
  format_activity_summary :: "(string \<times> json) list \<Rightarrow> string"
  format_intervals :: "(string \<times> json) list \<Rightarrow> string"
  format_event_summary :: "(string \<times> json) list \<Rightarrow> string"
  format_event_details :: "(string \<times> json) list \<Rightarrow> string"
  repr :: "json \<Rightarrow> string"
  fromisoformat_other :: "string \<Rightarrow> date option"

text \<open>
  A tool returns the requests it issued, in order, and either the exception that left
  it or its return value (a text as \<open>JStr\<close>; \<open>post_events\<close> may return a dict).
\<close>

type_synonym outcome = "request list \<times> (exn + json)"

definition no_athlete_id :: string where
  "no_athlete_id =
     ''Error: No athlete ID provided and no default ATHLETE_ID found in environment variables.''"

definition no_api_key :: string where
  "no_api_key =
     ''Error: No api_key provided and no default API_KEY found in environment variables.''"

text \<open>\<open>arg if arg is not None else default\<close>.\<close>

definition resolve :: "string option \<Rightarrow> string \<Rightarrow> string" where
  "resolve arg dflt = (case arg of None \<Rightarrow> dflt | Some a \<Rightarrow> a)"

text \<open>\<open>not start_date\<close>: the argument is \<open>None\<close> or the empty string.\<close>

definition absent :: "string option \<Rightarrow> bool" where
  "absent arg = (case arg of None \<Rightarrow> True | Some a \<Rightarrow> a = [])"

text \<open>\<open>isinstance(result, dict) and "error" in result\<close>, and the message reported.\<close>

fun is_error :: "json \<Rightarrow> bool" where
  "is_error (JDict kvs) = has_key kvs ''error''"
| "is_error v = False"

fun error_message :: "env \<Rightarrow> json \<Rightarrow> string" where
  "error_message E (JDict kvs) =
     py_str (repr E) (dict_get_default kvs ''message'' (JStr ''Unknown error''))"
| "error_message E v = []"

subsection \<open>\<open>get_activities\<close>\<close>

text \<open>Lines 71 to 87: the payload as a flat list of activity dicts.\<close>

fun first_list :: "(string \<times> json) list \<Rightarrow> json list option" where
  "first_list [] = None"
| "first_list ((k, JList xs) # kvs) = Some xs"
| "first_list ((k, v) # kvs) = first_list kvs"

definition activity_keys :: "string list" where
  "activity_keys = [''name'', ''startTime'', ''distance'']"

fun normalize_activities :: "json \<Rightarrow> json list" where
  "normalize_activities (JList xs) = filter is_dict xs"
| "normalize_activities (JDict kvs) =
     (let activities = (case first_list kvs of None \<Rightarrow> [] | Some xs \<Rightarrow> filter is_dict xs)
      in if activities = [] \<and> list_ex (has_key kvs) activity_keys then [JDict kvs]
         else activities)"
| "normalize_activities v = []"

text \<open>
  \<open>activity.get("name") and activity.get("name") != "Unnamed"\<close>, on the dicts the
  normalisation yields; in the second comprehension \<open>isinstance(activity, dict)\<close> comes
  first.
\<close>

fun is_named :: "json \<Rightarrow> bool" where
  "is_named (JDict kvs) = (truthy (dict_get kvs ''name'') \<and> dict_get kvs ''name'' \<noteq> JStr ''Unnamed'')"
| "is_named v = False"

definition activities_url :: "string \<Rightarrow> string" where
  "activities_url athlete_id = ''/athlete/'' @ athlete_id @ ''/activities''"

definition activities_request :: "string \<Rightarrow> string \<Rightarrow> string \<Rightarrow> string \<Rightarrow> int \<Rightarrow> request" where
  "activities_request athlete_id api_key oldest newest api_limit =
     Request GET (activities_url athlete_id) api_key
       (Some [(''oldest'', JStr oldest), (''newest'', JStr newest), (''limit'', JInt api_limit)])
       None"

text \<open>
  Lines 100 to 128, entered with the named activities when they are fewer than
  \<open>limit\<close>: the window of the 60 days before the start date, the guard on the two
  rendered dates, the second fetch, and the extension of the list.
\<close>

definition fetch_more ::
  "env \<Rightarrow> string \<Rightarrow> string \<Rightarrow> string \<Rightarrow> int \<Rightarrow> json list \<Rightarrow> request list \<times> (exn + json list)" where
  "fetch_more E athlete_id api_key start_date api_limit activities =
     (case parse_date (fromisoformat_other E) start_date of
        Inl e \<Rightarrow> ([], Inl e)
      | Inr oldest_date \<Rightarrow>
          (case date_minus oldest_date 60 of
             Inl e \<Rightarrow> ([], Inl e)
           | Inr older_start \<Rightarrow>
               (case date_minus oldest_date 1 of
                  Inl e \<Rightarrow> ([], Inl e)
                | Inr older_end \<Rightarrow>
                    if str_less (strftime older_start) (strftime older_end) then
                      let req = activities_request athlete_id api_key
                                  (strftime older_start) (strftime older_end) api_limit
                      in (case gateway E req of
                            Inl e \<Rightarrow> ([req], Inl e)
                          | Inr more_result \<Rightarrow>
                              (case more_result of
                                 JList xs \<Rightarrow>
                                   ([req], Inr (activities @ filter (\<lambda>a. is_dict a \<and> is_named a) xs))
                               | _ \<Rightarrow> ([req], Inr activities)))
                    else ([], Inr activities))))"

text \<open>Lines 93 to 128: the filter and, when too few remain, the second fetch.\<close>

definition select_activities ::
  "env \<Rightarrow> string \<Rightarrow> string \<Rightarrow> string \<Rightarrow> int \<Rightarrow> int \<Rightarrow> bool \<Rightarrow> json list
     \<Rightarrow> request list \<times> (exn + json list)" where
  "select_activities E athlete_id api_key start_date api_limit limit include_unnamed activities =
     (if \<not> include_unnamed then
        let named = filter is_named activities
        in if int (length named) < limit
           then fetch_more E athlete_id api_key start_date api_limit named
           else ([], Inr named)
      else ([], Inr activities))"

text \<open>Lines 139 to 146: the rendering of the activities kept.\<close>

fun activity_text :: "env \<Rightarrow> json \<Rightarrow> string" where
  "activity_text E (JDict kvs) = format_activity_summary E kvs @ nl"
| "activity_text E v = ''Invalid activity format: '' @ py_str (repr E) v @ nl @ nl"

definition render_activities :: "env \<Rightarrow> json list \<Rightarrow> string" where
  "render_activities E activities =
     ''Activities:'' @ nl @ nl @ concat (map (activity_text E) activities)"

definition no_activities :: "string \<Rightarrow> string" where
  "no_activities athlete_id =
     ''No activities found for athlete '' @ athlete_id @ '' in the specified date range.''"

definition no_valid_activities :: "string \<Rightarrow> string" where
  "no_valid_activities athlete_id =
     ''No valid activities found for athlete '' @ athlete_id @ '' in the specified date range.''"

definition no_named_activities :: "string \<Rightarrow> string" where
  "no_named_activities athlete_id =
     ''No named activities found for athlete '' @ athlete_id
       @ '' in the specified date range. Try with include_unnamed=True to see all activities.''"

text \<open>
  The handler up to line 137: either a text returned early (\<open>Inl\<close>), or the activities
  that will be rendered (\<open>Inr\<close>), after the cut to \<open>limit\<close>.
\<close>

definition default_start :: "env \<Rightarrow> string option \<Rightarrow> exn + string" where
  "default_start E start_date =
     (if absent start_date then bind (date_minus (today E) 30) (\<lambda>d. Inr (strftime d))
      else Inr (the start_date))"

definition list_activities ::
  "env \<Rightarrow> string option \<Rightarrow> string option \<Rightarrow> string option \<Rightarrow> string option \<Rightarrow> int \<Rightarrow> bool
     \<Rightarrow> request list \<times> (exn + (string + json list))" where
  "list_activities E athlete_id api_key start_date end_date limit include_unnamed =
     (let athlete_id_to_use = resolve athlete_id (ATHLETE_ID E) in
      if athlete_id_to_use = [] then ([], Inr (Inl no_athlete_id))
      else
        let api_key_to_use = resolve api_key (API_KEY E) in
        if api_key_to_use = [] then ([], Inr (Inl no_api_key))
        else
          (case default_start E start_date of
             Inl e \<Rightarrow> ([], Inl e)
           | Inr start \<Rightarrow>
               let newest = (if absent end_date then strftime (today E) else the end_date);
                   api_limit = (if \<not> include_unnamed then limit * 3 else limit);
                   req = activities_request athlete_id_to_use api_key_to_use start newest api_limit
               in (case gateway E req of
                     Inl e \<Rightarrow> ([req], Inl e)
                   | Inr result \<Rightarrow>
                       if is_error result then
                         ([req], Inr (Inl (''Error fetching activities: '' @ error_message E result)))
                       else if \<not> truthy result then
                         ([req], Inr (Inl (no_activities athlete_id_to_use)))
                       else
                         let activities = normalize_activities result in
                         if activities = [] then
                           ([req], Inr (Inl (no_valid_activities athlete_id_to_use)))
                         else
                           (case select_activities E athlete_id_to_use api_key_to_use start
                                   api_limit limit include_unnamed activities of
                              (extra, Inl e) \<Rightarrow> (req # extra, Inl e)
                            | (extra, Inr selected) \<Rightarrow>
                                let shown = py_slice_to selected limit in
                                if shown = [] then
                                  (req # extra,
                                   Inr (Inl (if include_unnamed
                                             then no_valid_activities athlete_id_to_use
                                             else no_named_activities athlete_id_to_use)))
                                else (req # extra, Inr (Inr shown))))))"

definition get_activities ::
  "env \<Rightarrow> string option \<Rightarrow> string option \<Rightarrow> string option \<Rightarrow> string option \<Rightarrow> int \<Rightarrow> bool
     \<Rightarrow> outcome" where
  "get_activities E athlete_id api_key start_date end_date limit include_unnamed =
     (case list_activities E athlete_id api_key start_date end_date limit include_unnamed of
        (reqs, Inl e) \<Rightarrow> (reqs, Inl e)
      | (reqs, Inr (Inl text)) \<Rightarrow> (reqs, Inr (JStr text))
      | (reqs, Inr (Inr shown)) \<Rightarrow> (reqs, Inr (JStr (render_activities E shown))))"

subsection \<open>\<open>get_activity_details\<close> and \<open>get_activity_intervals\<close>\<close>

text \<open>
  Lines 185 to 197: one line per zone, from \<open>zones.get("power", [])\<close> and
  \<open>zones.get("hr", [])\<close>; the loop stops at the first exception.
\<close>

definition zone_line :: "env \<Rightarrow> json \<Rightarrow> exn + string" where
  "zone_line E zone =
     bind (method_get zone ''number'' JNull) (\<lambda>number.
     bind (method_get zone ''secondsInZone'' JNull) (\<lambda>seconds.
       Inr (''Zone '' @ py_str (repr E) number @ '': '' @ py_str (repr E) seconds
              @ '' seconds'' @ nl)))"

fun zone_lines :: "env \<Rightarrow> json list \<Rightarrow> exn + string" where
  "zone_lines E [] = Inr []"
| "zone_lines E (zone # zones) =
     bind (zone_line E zone) (\<lambda>line. bind (zone_lines E zones) (\<lambda>rest. Inr (line @ rest)))"

definition zone_listing :: "env \<Rightarrow> json \<Rightarrow> string \<Rightarrow> exn + string" where
  "zone_listing E zones key =
     bind (method_get zones key (JList [])) (\<lambda>v. bind (py_iter v) (zone_lines E))"

definition zones_text :: "env \<Rightarrow> (string \<times> json) list \<Rightarrow> exn + string" where
  "zones_text E activity_data =
     (if has_key activity_data ''zones'' then
        bind (subscript (JDict activity_data) ''zones'') (\<lambda>zones.
        bind (zone_listing E zones ''power'') (\<lambda>power.
        bind (zone_listing E zones ''hr'') (\<lambda>hr.
          Inr (nl @ ''Power Zones:'' @ nl @ power @ nl @ ''Heart Rate Zones:'' @ nl @ hr))))
      else Inr [])"

text \<open>\<open>result[0] if isinstance(result, list) and result else result\<close>.\<close>

fun first_or_self :: "json \<Rightarrow> json" where
  "first_or_self (JList (x # xs)) = x"
| "first_or_self v = v"

definition get_activity_details :: "env \<Rightarrow> string \<Rightarrow> string option \<Rightarrow> outcome" where
  "get_activity_details E activity_id api_key =
     (let api_key_to_use = resolve api_key (API_KEY E) in
      if api_key_to_use = [] then ([], Inr (JStr no_api_key))
      else
        let req = Request GET (''/activity/'' @ activity_id) api_key_to_use None None in
        (case gateway E req of
           Inl e \<Rightarrow> ([req], Inl e)
         | Inr result \<Rightarrow>
             if is_error result then
               ([req], Inr (JStr (''Error fetching activity details: '' @ error_message E result)))
             else if \<not> truthy result then
               ([req], Inr (JStr (''No details found for activity '' @ activity_id @ ''.'')))
             else
               (case first_or_self result of
                  JDict activity_data \<Rightarrow>
                    ([req],
                     bind (zones_text E activity_data) (\<lambda>zones.
                       Inr (JStr (format_activity_summary E activity_data @ zones))))
                | _ \<Rightarrow>
                    ([req],
                     Inr (JStr (''Invalid activity format for activity '' @ activity_id @ ''.''))))))"

definition get_activity_intervals :: "env \<Rightarrow> string \<Rightarrow> string option \<Rightarrow> outcome" where
  "get_activity_intervals E activity_id api_key =
     (let api_key_to_use = resolve api_key (API_KEY E) in
      if api_key_to_use = [] then ([], Inr (JStr no_api_key))
      else
        let req = Request GET (''/activity/'' @ activity_id @ ''/intervals'') api_key_to_use
                    None None in
        (case gateway E req of
           Inl e \<Rightarrow> ([req], Inl e)
         | Inr result \<Rightarrow>
             if is_error result then
               ([req], Inr (JStr (''Error fetching intervals: '' @ error_message E result)))
             else if \<not> truthy result then
               ([req], Inr (JStr (''No interval data found for activity '' @ activity_id @ ''.'')))
             else
               (case result of
                  JDict kvs \<Rightarrow>
                    if list_ex (has_key kvs) [''icu_intervals'', ''icu_groups'']
                    then ([req], Inr (JStr (format_intervals E kvs)))
                    else ([req],
                          Inr (JStr (''No interval data or unrecognized format for activity ''
                                       @ activity_id @ ''.'')))
                | _ \<Rightarrow>
                    ([req],
                     Inr (JStr (''No interval data or unrecognized format for activity ''
                                  @ activity_id @ ''.''))))))"

subsection \<open>\<open>get_events\<close> and \<open>get_event_by_id\<close>\<close>

definition no_events :: "string \<Rightarrow> string" where
  "no_events athlete_id =
     ''No events found for athlete '' @ athlete_id @ '' in the specified date range.''"

fun event_text :: "env \<Rightarrow> json \<Rightarrow> string" where
  "event_text E (JDict kvs) = format_event_summary E kvs @ nl @ nl"
| "event_text E v = []"

definition default_end :: "env \<Rightarrow> string option \<Rightarrow> exn + string" where
  "default_end E end_date =
     (if absent end_date then bind (date_plus (today E) 30) (\<lambda>d. Inr (strftime d))
      else Inr (the end_date))"

definition get_events ::
  "env \<Rightarrow> string option \<Rightarrow> string option \<Rightarrow> string option \<Rightarrow> string option \<Rightarrow> outcome" where
  "get_events E athlete_id api_key start_date end_date =
     (let athlete_id_to_use = resolve athlete_id (ATHLETE_ID E) in
      if athlete_id_to_use = [] then ([], Inr (JStr no_athlete_id))
      else
        let api_key_to_use = resolve api_key (API_KEY E) in
        if api_key_to_use = [] then ([], Inr (JStr no_api_key))
        else
          let start = (if absent start_date then strftime (today E) else the start_date) in
          (case default_end E end_date of
             Inl e \<Rightarrow> ([], Inl e)
           | Inr newest \<Rightarrow>
               let req = Request GET (''/athlete/'' @ athlete_id_to_use @ ''/events'')
                           api_key_to_use
                           (Some [(''oldest'', JStr start), (''newest'', JStr newest)]) None
               in (case gateway E req of
                     Inl e \<Rightarrow> ([req], Inl e)
                   | Inr result \<Rightarrow>
                       if is_error result then
                         ([req], Inr (JStr (''Error fetching events: '' @ error_message E result)))
                       else if \<not> truthy result then
                         ([req], Inr (JStr (no_events athlete_id_to_use)))
                       else
                         (case result of
                            JList events \<Rightarrow>
                              ([req],
                               Inr (JStr (''Events:'' @ nl @ nl
                                            @ concat (map (event_text E) events))))
                          | _ \<Rightarrow> ([req], Inr (JStr (no_events athlete_id_to_use)))))))"

definition get_event_by_id ::
  "env \<Rightarrow> string \<Rightarrow> string option \<Rightarrow> string option \<Rightarrow> outcome" where
  "get_event_by_id E event_id athlete_id api_key =
     (let athlete_id_to_use = resolve athlete_id (ATHLETE_ID E) in
      if athlete_id_to_use = [] then ([], Inr (JStr no_athlete_id))
      else
        let api_key_to_use = resolve api_key (API_KEY E) in
        if api_key_to_use = [] then ([], Inr (JStr no_api_key))
        else
          let req = Request GET (''/athlete/'' @ athlete_id_to_use @ ''/event/'' @ event_id)
                      api_key_to_use None None
          in (case gateway E req of
                Inl e \<Rightarrow> ([req], Inl e)
              | Inr result \<Rightarrow>
                  if is_error result then
                    ([req], Inr (JStr (''Error fetching event details: '' @ error_message E result)))
                  else if \<not> truthy result then
                    ([req], Inr (JStr (''No details found for event '' @ event_id @ ''.'')))
                  else
                    (case result of
                       JDict kvs \<Rightarrow> ([req], Inr (JStr (format_event_details E kvs)))
                     | _ \<Rightarrow>
                         ([req], Inr (JStr (''Invalid event format for event '' @ event_id @ ''.''))))))"

subsection \<open>\<open>post_events\<close>\<close>

text \<open>
  \<open>convert_duration\<close> applied to whatever \<open>step["duration"]\<close> holds: on a list or a
  dict the \<open>in\<close> tests are membership tests, and the first that succeeds leads to a
  string method the value lacks; when none succeeds \<open>int\<close> rejects the value. The
  other values do not support \<open>in\<close>.
\<close>

fun convert_duration_value :: "json \<Rightarrow> exn + pynum" where
  "convert_duration_value (JStr s) = convert_duration s"
| "convert_duration_value v =
     bind (py_contains ''km'' v) (\<lambda>km.
       if km then Inl AttributeError
       else bind (py_contains ''m'' v) (\<lambda>m.
         if m then Inl AttributeError
         else bind (py_contains ''s'' v) (\<lambda>s.
           if s then Inl AttributeError else Inl TypeError)))"

text \<open>Lines 194 to 197: the description line of one step.\<close>

definition step_line :: "env \<Rightarrow> json \<Rightarrow> exn + string" where
  "step_line E step =
     bind (subscript step ''duration'') (\<lambda>duration.
     bind (subscript step ''power'') (\<lambda>power.
       let line = ''- '' @ py_str (repr E) duration @ '' '' @ py_str (repr E) power in
       bind (py_contains ''cadence'' step) (\<lambda>has_cadence.
         if has_cadence
         then bind (subscript step ''cadence'') (\<lambda>cadence.
                Inr (line @ '' ('' @ py_str (repr E) cadence @ '')''))
         else Inr line)))"

fun step_lines :: "env \<Rightarrow> json list \<Rightarrow> exn + string list" where
  "step_lines E [] = Inr []"
| "step_lines E (step # steps) =
     bind (step_line E step) (\<lambda>line. bind (step_lines E steps) (\<lambda>rest. Inr (line # rest)))"

text \<open>
  Lines 208 to 210: \<open>sum\<close> over the generator, from 0, adding from left to right; each
  step is converted just before it is added.
\<close>

fun moving_time :: "pynum \<Rightarrow> json list \<Rightarrow> exn + pynum" where
  "moving_time acc [] = Inr acc"
| "moving_time acc (step # steps) =
     bind (subscript step ''duration'') (\<lambda>duration.
     bind (convert_duration_value duration) (\<lambda>t.
     bind (py_add acc t) (\<lambda>acc'. moving_time acc' steps)))"

text \<open>\<open>"Bike" in name\<close> and the like, where \<open>name\<close> may be \<open>None\<close>.\<close>

definition name_contains :: "string \<Rightarrow> string option \<Rightarrow> exn + bool" where
  "name_contains x name = (case name of None \<Rightarrow> Inl TypeError | Some n \<Rightarrow> Inr (str_in x n))"

definition event_type :: "string option \<Rightarrow> exn + string" where
  "event_type name =
     bind (name_contains ''Bike'' name) (\<lambda>bike.
       if bike then Inr ''Ride''
       else bind (name_contains ''Run'' name) (\<lambda>run. Inr (if run then ''Run'' else ''Swim'')))"

definition event_target :: "string option \<Rightarrow> exn + string" where
  "event_target name =
     bind (name_contains ''Power'' name) (\<lambda>power.
       if power then Inr ''POWER''
       else bind (name_contains ''pace'' name) (\<lambda>pace.
         if pace then Inr ''PACE''
         else bind (name_contains ''hr'' name) (\<lambda>hr. Inr (if hr then ''HR'' else ''AUTO''))))"

text \<open>
  Lines 191 to 211: \<open>final_data\<close>, its entries evaluated in the order of the dict
  display.
\<close>

definition event_payload ::
  "env \<Rightarrow> string \<Rightarrow> string option \<Rightarrow> (string \<times> json) list option \<Rightarrow> exn + json" where
  "event_payload E start_date name data =
     bind (case data of None \<Rightarrow> Inl TypeError | Some d \<Rightarrow> subscript (JDict d) ''steps'')
       (\<lambda>steps.
     bind (py_iter steps) (\<lambda>expanded_steps.
     bind (step_lines E expanded_steps) (\<lambda>description_lines.
     bind (event_type name) (\<lambda>type.
     bind (event_target name) (\<lambda>target.
     bind (moving_time (PyInt 0) expanded_steps) (\<lambda>total.
       Inr (JDict
         [(''start_date_local'', JStr (start_date @ ''T00:00:00'')),
          (''category'', JStr ''WORKOUT''),
          (''name'', (case name of None \<Rightarrow> JNull | Some n \<Rightarrow> JStr n)),
          (''description'', JStr (py_strip (py_join nl description_lines))),
          (''type'', JStr type),
          (''target'', JStr target),
          (''moving_time'', json_of_num total)])))))))"

definition post_events ::
  "env \<Rightarrow> string option \<Rightarrow> string option \<Rightarrow> string option \<Rightarrow> string option
     \<Rightarrow> (string \<times> json) list option \<Rightarrow> outcome" where
  "post_events E athlete_id api_key start_date name data =
     (let athlete_id_to_use = resolve athlete_id (ATHLETE_ID E) in
      if athlete_id_to_use = [] then ([], Inr (JStr no_athlete_id))
      else
        let api_key_to_use = resolve api_key (API_KEY E) in
        if api_key_to_use = [] then ([], Inr (JStr no_api_key))
        else
          let start = (if absent start_date then strftime (today E) else the start_date) in
          (case event_payload E start name data of
             Inl e \<Rightarrow> ([], Inl e)
           | Inr final_data \<Rightarrow>
               let req = Request POST (''/athlete/'' @ athlete_id_to_use @ ''/events'')
                           api_key_to_use None (Some final_data)
               in (case gateway E req of
                     Inl e \<Rightarrow> ([req], Inl e)
                   | Inr result \<Rightarrow>
                       if is_error result then
                         ([req],
                          Inr (JStr (''Error fetching events: '' @ error_message E result
                                       @ '' data used:'' @ py_str (repr E) final_data)))
                       else if \<not> truthy result then
                         ([req],
                          Inr (JStr (''No events posted for athlete ''
                                       @ (case athlete_id of None \<Rightarrow> ''None'' | Some a \<Rightarrow> a)
                                       @ ''.'')))
                       else if is_dict result then ([req], Inr result)
                       else
                         ([req],
                          Inr (JStr (''format error, verify intervals for correct event at ''
                                       @ start))))))"

subsection \<open>A concrete environment\<close>

text \<open>
  An environment for evaluating the tools on concrete inputs: both defaults set, the
  gateway answering every request with one named activity, formatters that print
  the name of their argument, and a date parser that accepts no string besides those
  of the form \<open>dddd-dd-dd\<close>.
\<close>

definition sample_env :: env where
  "sample_env =
     \<lparr>gateway = (\<lambda>req. Inr (JList [JDict [(''name'', JStr ''Morning Ride'')]])),
      API_KEY = ''secret'',
      ATHLETE_ID = ''i12345'',
      today = (2025, 1, 14),
      format_activity_summary = (\<lambda>kvs. py_str (\<lambda>v. []) (dict_get kvs ''name'')),
      format_intervals = (\<lambda>kvs. py_str (\<lambda>v. []) (dict_get kvs ''id'')),
      format_event_summary = (\<lambda>kvs. py_str (\<lambda>v. []) (dict_get kvs ''name'')),
      format_event_details = (\<lambda>kvs. py_str (\<lambda>v. []) (dict_get kvs ''name'')),
      repr = (\<lambda>v. []),
      fromisoformat_other = (\<lambda>s. None)\<rparr>"

subsection \<open>Unnamed activities, in the words of the specification\<close>

text \<open>
  An activity is unnamed when its name is missing, empty, or exactly \<open>"Unnamed"\<close>; a
  value that is no dict has no name.
\<close>

fun unnamed :: "json \<Rightarrow> bool" where
  "unnamed (JDict kvs) =
     (case map_of kvs ''name'' of
        None \<Rightarrow> True
      | Some v \<Rightarrow> v = JStr [] \<or> v = JStr ''Unnamed'')"
| "unnamed v = True"

text \<open>The two steps used in the examples of \<open>post_events\<close>.\<close>

definition two_steps :: "(string \<times> json) list" where
  "two_steps =
     [(''steps'', JList [JDict [(''duration'', JStr ''15m''), (''power'', JStr ''80%'')],
                         JDict [(''duration'', JStr ''3m''), (''power'', JStr ''110%'')]])]"

text \<open>
  A gateway that answers every request with one named activity and three unnamed
  ones, for evaluating the filter.
\<close>

definition mixed_env :: env where
  "mixed_env =
     sample_env\<lparr>gateway := (\<lambda>req. Inr (JList
       [JDict [(''name'', JStr ''Ride'')], JDict [(''name'', JStr ''Unnamed'')],
        JDict [(''id'', JInt 7)], JDict [(''name'', JStr [])]]))\<rparr>"

text \<open>
  A gateway whose first answer holds one named and one unnamed activity and whose
  answer to any other request is an error envelope.
\<close>

definition window_env :: env where
  "window_env =
     sample_env\<lparr>gateway := (\<lambda>req.
       if req = activities_request ''i12345'' ''secret'' ''2025-01-14'' ''2025-01-14'' 9
       then Inr (JList [JDict [(''name'', JStr ''Ride'')], JDict [(''name'', JStr ''Unnamed'')]])
       else Inr (message_envelope ''Request error: timed out''))\<rparr>"

section \<open>Properties of the string operations\<close>


lemma str_in_self: "str_in sub sub"
  by (cases sub) simp_all

lemma str_in_append: "str_in sub (p @ sub)"
  by (induction p) (simp_all add: str_in_self)

lemma str_in_set: "str_in sub s \<Longrightarrow> set sub \<subseteq> set s"
proof (induction s)
  case Nil
  then show ?case by simp
next
  case (Cons a s)
  from Cons.prems have "prefix sub (a # s) \<or> str_in sub s" by simp
  then show ?case
  proof
    assume "prefix sub (a # s)"
    then show ?thesis by (rule set_mono_prefix)
  next
    assume "str_in sub s"
    then have "set sub \<subseteq> set s" by (rule Cons.IH)
    then show ?thesis by auto
  qed
qed

lemma py_replace_self: "old \<noteq> [] \<Longrightarrow> py_replace old [] old = []"
  by (simp add: py_replace.simps [of old "[]" old] py_replace.simps [of old "[]" "[]"])

lemma py_replace_suffix:
  "old \<noteq> [] \<Longrightarrow> hd old \<notin> set p \<Longrightarrow> py_replace old [] (p @ old) = p"
proof (induction p)
  case Nil
  then show ?case by (simp add: py_replace_self)
next
  case (Cons a p)
  from Cons.prems obtain h t where old: "old = h # t" by (cases old) auto
  with Cons.prems have "a \<noteq> h" by auto
  then have "\<not> prefix old ((a # p) @ old)" by (simp add: old)
  with Cons show ?case
    by (simp add: py_replace.simps [of old "[]" "a # p @ old"])
qed

lemma digits_us_chars:
  "digits_us prev acc n s = Some r \<Longrightarrow> c \<in> set s \<Longrightarrow> is_digit c \<or> c = CHR ''_''"
  by (induction prev acc n s rule: digits_us.induct) (auto split: if_splits)

lemma dropWhile_keeps: "c \<in> set xs \<Longrightarrow> \<not> P c \<Longrightarrow> c \<in> set (dropWhile P xs)"
  by (induction xs) auto

lemma py_strip_keeps: "c \<in> set s \<Longrightarrow> \<not> is_space c \<Longrightarrow> c \<in> set (py_strip s)"
  by (simp add: py_strip_def dropWhile_keeps)

lemma split_sign_keeps:
  "split_sign s = (neg, body) \<Longrightarrow> c \<in> set s \<Longrightarrow> \<not> sign_char c \<Longrightarrow> c \<in> set body"
  by (auto simp: split_sign_def sign_char_def split: list.splits if_splits)

lemma py_int_chars:
  assumes "py_int s = Some i" "c \<in> set s"
  shows "is_digit c \<or> c = CHR ''_'' \<or> sign_char c \<or> is_space c"
proof (rule ccontr)
  assume n: "\<not> ?thesis"
  obtain neg body where sb: "split_sign (py_strip s) = (neg, body)" by force
  from n assms(2) have "c \<in> set (py_strip s)" by (simp add: py_strip_keeps)
  with sb n have "c \<in> set body" by (auto dest: split_sign_keeps)
  moreover from assms(1) sb obtain r where "digits_us False 0 0 body = Some r"
    by (auto simp: py_int_def split: option.splits)
  ultimately show False using n by (auto dest: digits_us_chars)
qed

lemma opt_digits_chars:
  "opt_digits s = Some r \<Longrightarrow> c \<in> set s \<Longrightarrow> is_digit c \<or> c = CHR ''_''"
  by (auto simp: opt_digits_def split: if_splits dest: digits_us_chars)

lemma split_at:
  "c \<in> set s \<Longrightarrow> c \<in> set (takeWhile P s) \<or> c \<in> set (dropWhile P s)"
  by (metis Un_iff set_append takeWhile_dropWhile_id)

lemma dropWhile_tl: "c \<in> set (dropWhile P s) \<Longrightarrow> \<not> P c \<or> c \<in> set (tl (dropWhile P s))"
  by (metis hd_dropWhile list.collapse list.set_cases list.sel(1) list.sel(3) set_ConsD empty_iff empty_set)

lemma parse_mantissa_chars:
  assumes "parse_mantissa s = Some q" "c \<in> set s"
  shows "is_digit c \<or> c = CHR ''_'' \<or> c = CHR ''.''"
proof -
  let ?P = "\<lambda>c. c \<noteq> CHR ''.''"
  from assms(2) consider "c \<in> set (takeWhile ?P s)" | "c \<in> set (dropWhile ?P s)"
    using split_at by fastforce
  then show ?thesis
  proof cases
    case 1
    with assms(1) show ?thesis
      by (auto simp: parse_mantissa_def Let_def split: if_splits option.splits prod.splits
          dest: digits_us_chars opt_digits_chars)
  next
    case 2
    then have "c = CHR ''.'' \<or> c \<in> set (tl (dropWhile ?P s))" using dropWhile_tl by fastforce
    moreover from 2 have "dropWhile ?P s \<noteq> []" by (metis empty_iff list.set(1))
    ultimately show ?thesis using assms(1)
      by (auto simp: parse_mantissa_def Let_def split: if_splits option.splits prod.splits
          dest: opt_digits_chars)
  qed
qed

lemma parse_exponent_chars:
  assumes "parse_exponent s = Some e" "c \<in> set s"
  shows "is_digit c \<or> c = CHR ''_'' \<or> sign_char c"
proof (rule ccontr)
  assume n: "\<not> ?thesis"
  obtain neg body where sb: "split_sign s = (neg, body)" by force
  with n assms(2) have "c \<in> set body" by (auto dest: split_sign_keeps)
  moreover from assms(1) sb obtain r where "digits_us False 0 0 body = Some r"
    by (auto simp: parse_exponent_def)
  ultimately show False using n by (auto dest: digits_us_chars)
qed

lemma parse_decimal_chars:
  assumes "parse_decimal s = Some q" "c \<in> set s"
  shows "is_digit c \<or> c = CHR ''_'' \<or> c = CHR ''.'' \<or> is_e c \<or> sign_char c"
proof -
  let ?P = "\<lambda>c. \<not> is_e c"
  from assms(2) consider "c \<in> set (takeWhile ?P s)" | "c \<in> set (dropWhile ?P s)"
    using split_at by fastforce
  then show ?thesis
  proof cases
    case 1
    with assms(1) show ?thesis
      by (auto simp: parse_decimal_def Let_def split: if_splits option.splits
          dest: parse_mantissa_chars)
  next
    case 2
    then have "is_e c \<or> c \<in> set (tl (dropWhile ?P s))" using dropWhile_tl by fastforce
    moreover from 2 have "dropWhile ?P s \<noteq> []" by (metis empty_iff list.set(1))
    ultimately show ?thesis using assms(1)
      by (auto simp: parse_decimal_def Let_def split: if_splits option.splits
          dest: parse_exponent_chars)
  qed
qed

lemma py_float_chars:
  assumes "py_float s = Some f" "c \<in> set s"
  shows "float_char c"
proof (rule ccontr)
  assume n: "\<not> ?thesis"
  obtain neg body where sb: "split_sign (py_strip s) = (neg, body)" by force
  from n assms(2) have "c \<in> set (py_strip s)" by (simp add: py_strip_keeps float_char_def)
  with sb n have cb: "c \<in> set body" by (auto dest: split_sign_keeps simp: float_char_def)
  then have lc: "lower_char c \<in> set (map lower_char body)" by simp
  from n have "lower_char c \<notin> set ''infinityan''" by (simp add: float_char_def)
  with lc have "map lower_char body \<noteq> ''inf''" "map lower_char body \<noteq> ''infinity''"
    "map lower_char body \<noteq> ''nan''" by auto
  with assms(1) sb obtain q where "parse_decimal body = Some q"
    by (auto simp: py_float_def Let_def split: option.splits if_splits)
  with cb n show False by (auto dest: parse_decimal_chars simp: float_char_def)
qed

lemma not_float_char_k: "\<not> float_char CHR ''k''"
  by (simp add: float_char_def is_digit_def is_e_def sign_char_def is_space_def lower_char_def)

lemma not_float_char_m: "\<not> float_char CHR ''m''"
  by (simp add: float_char_def is_digit_def is_e_def sign_char_def is_space_def lower_char_def)

lemma not_int_char_kms:
  "\<not> int_char CHR ''k''" "\<not> int_char CHR ''m''" "\<not> int_char CHR ''s''"
  by (simp_all add: int_char_def is_digit_def sign_char_def is_space_def)

lemma py_int_no_unit:
  assumes "py_int s = Some i"
  shows "CHR ''k'' \<notin> set s" "CHR ''m'' \<notin> set s" "CHR ''s'' \<notin> set s"
  using py_int_chars [OF assms] not_int_char_kms by (auto simp: int_char_def)

lemma py_float_no_unit:
  assumes "py_float s = Some f"
  shows "CHR ''k'' \<notin> set s" "CHR ''m'' \<notin> set s"
  using py_float_chars [OF assms] not_float_char_k not_float_char_m by auto

lemma not_str_in: "c \<in> set sub \<Longrightarrow> c \<notin> set s \<Longrightarrow> \<not> str_in sub s"
  using str_in_set by blast

lemma spec_km:
  assumes "endswith d ''km''" "convert_duration_spec d = Inr v"
  shows "convert_duration d = Inr v"
proof -
  from assms(1) obtain p where d: "d = p @ ''km''" by (auto simp: endswith_def suffix_def)
  from assms obtain f where f: "py_float p = Some f" and v: "v = PyFloat (float_mul f (Finite 1000))"
    by (auto simp: convert_duration_spec_def d float_of_str_def split: option.splits sum.splits)
  have "py_replace ''km'' [] d = p"
    unfolding d using py_float_no_unit(1) [OF f] by (intro py_replace_suffix) simp_all
  moreover have "str_in ''km'' d" unfolding d by (rule str_in_append)
  ultimately show ?thesis by (simp add: convert_duration_def float_of_str_def f v)
qed

lemma spec_m:
  assumes "\<not> endswith d ''km''" "endswith d ''m''" "convert_duration_spec d = Inr v"
  shows "convert_duration d = Inr v"
proof -
  from assms(2) obtain p where d: "d = p @ ''m''" by (auto simp: endswith_def suffix_def)
  from assms obtain i where i: "py_int p = Some i" and v: "v = PyInt (i * 60)"
    by (auto simp: convert_duration_spec_def d int_of_str_def split: option.splits sum.splits if_splits)
  have "py_replace ''m'' [] d = p"
    unfolding d using py_int_no_unit(2) [OF i] by (intro py_replace_suffix) simp_all
  moreover have "str_in ''m'' d" unfolding d by (rule str_in_append)
  moreover have "\<not> str_in ''km'' d"
    using py_int_no_unit(1) [OF i] by (intro not_str_in [of "CHR ''k''"]) (simp_all add: d)
  ultimately show ?thesis using assms(1) by (simp add: convert_duration_def int_of_str_def i v)
qed

lemma spec_s:
  assumes "\<not> endswith d ''km''" "\<not> endswith d ''m''" "endswith d ''s''"
    "convert_duration_spec d = Inr v"
  shows "convert_duration d = Inr v"
proof -
  from assms(3) obtain p where d: "d = p @ ''s''" by (auto simp: endswith_def suffix_def)
  from assms obtain i where i: "py_int p = Some i" and v: "v = PyInt i"
    by (auto simp: convert_duration_spec_def d int_of_str_def split: option.splits sum.splits if_splits)
  have "py_replace ''s'' [] d = p"
    unfolding d using py_int_no_unit(3) [OF i] by (intro py_replace_suffix) simp_all
  moreover have "str_in ''s'' d" unfolding d by (rule str_in_append)
  moreover have "\<not> str_in ''km'' d"
    using py_int_no_unit(1) [OF i] by (intro not_str_in [of "CHR ''k''"]) (simp_all add: d)
  moreover have "\<not> str_in ''m'' d"
    using py_int_no_unit(2) [OF i] by (intro not_str_in [of "CHR ''m''"]) (simp_all add: d)
  ultimately show ?thesis by (simp add: convert_duration_def int_of_str_def i v)
qed

lemma spec_bare:
  assumes "\<not> endswith d ''km''" "\<not> endswith d ''m''" "\<not> endswith d ''s''"
    "convert_duration_spec d = Inr v"
  shows "convert_duration d = Inr v"
proof -
  from assms obtain i where i: "py_int d = Some i" and v: "v = PyInt i"
    by (auto simp: convert_duration_spec_def int_of_str_def split: option.splits sum.splits if_splits)
  have "\<not> str_in ''km'' d"
    using py_int_no_unit(1) [OF i] by (intro not_str_in [of "CHR ''k''"]) simp_all
  moreover have "\<not> str_in ''m'' d"
    using py_int_no_unit(2) [OF i] by (intro not_str_in [of "CHR ''m''"]) simp_all
  moreover have "\<not> str_in ''s'' d"
    using py_int_no_unit(3) [OF i] by (intro not_str_in [of "CHR ''s''"]) simp_all
  ultimately show ?thesis by (simp add: convert_duration_def int_of_str_def i v)
qed

lemma spec_refined: "convert_duration_spec d = Inr v \<Longrightarrow> convert_duration d = Inr v"
  using spec_km spec_m spec_s spec_bare by blast

section \<open>Duration conversion\<close>

text \<open>
  C1, as stated, fails: the code tests for the unit letters anywhere in the string and
  removes every occurrence, so \<open>"m5"\<close>, which has no trailing unit and is not an
  integer, is converted to 300 where the suffix rules give no value.
\<close>

theorem convert_duration_suffix_rules_counterexample:
  "convert_duration ''m5'' = Inr (PyInt 300) \<and> convert_duration_spec ''m5'' = Inl ValueError"
  by code_simp

text \<open>
  C1, amended: whenever the suffix rules of the specification give a value for a
  duration string, \<open>convert_duration\<close> returns that value; and the five examples of
  the specification hold.
\<close>

theorem convert_duration_refines_suffix_rules:
  "(convert_duration_spec d = Inr v \<longrightarrow> convert_duration d = Inr v)
   \<and> convert_duration ''15m'' = Inr (PyInt 900)
   \<and> convert_duration ''3m'' = Inr (PyInt 180)
   \<and> convert_duration ''30s'' = Inr (PyInt 30)
   \<and> convert_duration ''1km'' = Inr (PyFloat (Finite 1000))
   \<and> convert_duration ''45'' = Inr (PyInt 45)"
proof (intro conjI impI)
  assume "convert_duration_spec d = Inr v"
  then show "convert_duration d = Inr v" by (rule spec_refined)
qed code_simp+

theorem convert_duration_refines_suffix_rules_witness:
  "convert_duration_spec ''15m'' = Inr (PyInt 900) \<and> convert_duration ''15m'' = Inr (PyInt 900)"
proof -
  have h: "convert_duration_spec ''15m'' = Inr (PyInt 900)" by code_simp
  from convert_duration_refines_suffix_rules [of "''15m''" "PyInt 900"]
  have "convert_duration_spec ''15m'' = Inr (PyInt 900) \<longrightarrow> convert_duration ''15m'' = Inr (PyInt 900)"
    by (rule conjunct1)
  then have "convert_duration ''15m'' = Inr (PyInt 900)" using h by (rule mp)
  with h show ?thesis by (rule conjI)
qed

section \<open>The gateway on failures\<close>

text \<open>
  The name \<open>logger\<close> is never bound in \<open>utils/functions.py\<close>, so each exception handler
  of the gateway raises \<open>NameError\<close> at its first statement.
\<close>

lemma logger_unbound: "logger_error = Inl NameError"
  by (simp add: logger_error_def load_global_def functions_globals_def)

lemma handle_outcome_status_error:
  "\<not> (200 \<le> status \<and> status < 300) \<Longrightarrow> handle_outcome (Response status text decoded) = Inl NameError"
  by (auto simp: handle_outcome_def on_http_status_error_def logger_unbound bind_def)

lemma handle_outcome_failures:
  "handle_outcome (RequestError msg) = Inl NameError"
  "handle_outcome (OtherError msg) = Inl NameError"
  by (simp_all add: handle_outcome_def on_request_error_def on_exception_def logger_unbound bind_def)

text \<open>
  The table itself, as the handler would use it after the logging call: the fixed
  messages, and the body text for every other status.
\<close>

lemma custom_message_table:
  "custom_message 401 t = ''401 Unauthorized: Please check your API key.''"
  "custom_message 403 t = ''403 Forbidden: You may not have permission to access this resource.''"
  "custom_message 404 t = ''404 Not Found: The requested endpoint or ID doesn't exist.''"
  "custom_message 429 t = ''429 Too Many Requests: Too many requests in a short time period.''"
  "custom_message 500 t = ''500 Internal Server Error: The Intervals.icu server encountered an internal error.''"
  "custom_message 503 t = ''503 Service Unavailable: The Intervals.icu server might be down or undergoing maintenance.''"
  by code_simp+

lemma custom_message_fallback:
  "code \<notin> {401, 403, 404, 422, 429, 500, 503} \<Longrightarrow> custom_message code t = t"
  by (simp add: custom_message_def error_messages_def status_line_def)

text \<open>
  C6: the code at a failing input. A 401 answer to a GET and a 404 answer to a POST do
  not come back as an error envelope: the gateway raises \<open>NameError\<close>.
\<close>

theorem gateway_http_error_raises_NameError:
  "make_intervals_request (\<lambda>req. Response 401 body decoded) url api_key params = Inl NameError
   \<and> post_intervals_data (\<lambda>req. Response 404 body decoded) data url api_key params = Inl NameError"
  by (simp add: make_intervals_request_def post_intervals_data_def handle_outcome_status_error)

section \<open>Exceptions that leave a tool\<close>

text \<open>
  C2: the code at failing inputs. \<open>post_events\<close> with \<open>data\<close> omitted raises
  \<open>TypeError\<close> at \<open>data["steps"]\<close>, and with \<open>name\<close> omitted at \<open>"Bike" in name\<close>;
  \<open>get_activities\<close> with a start date that is no date raises \<open>ValueError\<close> once
  fewer than \<open>limit\<close> named activities remain.
\<close>

theorem post_events_without_data_raises:
  "post_events E (Some ''i12345'') (Some ''secret'') start_date name None = ([], Inl TypeError)
   \<and> post_events E (Some ''i12345'') (Some ''secret'') start_date None
        (Some [(''steps'', JList [])]) = ([], Inl TypeError)
   \<and> get_activities sample_env None None (Some ''last week'') None 10 False
      = ([activities_request ''i12345'' ''secret'' ''last week'' ''2025-01-14'' 30], Inl ValueError)"
proof (intro conjI)
  show "post_events E (Some ''i12345'') (Some ''secret'') start_date name None = ([], Inl TypeError)"
    by (simp add: post_events_def resolve_def event_payload_def bind_def)
  show "post_events E (Some ''i12345'') (Some ''secret'') start_date None
        (Some [(''steps'', JList [])]) = ([], Inl TypeError)"
    by (simp add: post_events_def resolve_def event_payload_def bind_def event_type_def name_contains_def)
  show "get_activities sample_env None None (Some ''last week'') None 10 False
      = ([activities_request ''i12345'' ''secret'' ''last week'' ''2025-01-14'' 30], Inl ValueError)"
    by code_simp
qed

text \<open>Without a \<open>zones\<close> key the detail view adds nothing to the summary.\<close>

lemma zones_absent_omitted:
  "\<not> has_key activity_data ''zones'' \<Longrightarrow> zones_text E activity_data = Inr []"
  by (simp add: zones_text_def)

text \<open>
  C9: the code at failing inputs. A \<open>zones\<close> field that is \<open>null\<close>, or a list of zone
  dicts, has no method \<open>get\<close>: \<open>get_activity_details\<close> raises \<open>AttributeError\<close>.
\<close>

theorem get_activity_details_zones_wrong_type_raises:
  "get_activity_details
     (E\<lparr>gateway := (\<lambda>req. Inr (JDict [(''name'', JStr ''Ride''), (''zones'', JNull)]))\<rparr>)
     ''a1'' (Some ''secret'')
   = ([Request GET ''/activity/a1'' ''secret'' None None], Inl AttributeError)
   \<and> get_activity_details
     (E\<lparr>gateway := (\<lambda>req. Inr (JDict [(''name'', JStr ''Ride''),
          (''zones'', JList [JDict [(''number'', JInt 1), (''secondsInZone'', JInt 60)]])]))\<rparr>)
     ''a1'' (Some ''secret'')
   = ([Request GET ''/activity/a1'' ''secret'' None None], Inl AttributeError)"
  by (simp add: get_activity_details_def resolve_def has_key_def zones_text_def zone_listing_def bind_def)

section \<open>Missing credentials\<close>

text \<open>
  Each tool resolves its credentials before anything else; with an unresolved API key
  it returns at once, having issued no request. The tools that take an athlete id
  check it first.
\<close>

lemma no_api_key_prefix: "prefix ''Error: No api_key provided'' no_api_key"
  by (simp add: no_api_key_def)

lemma absent_resolve: "absent api_key \<Longrightarrow> API_KEY E = [] \<Longrightarrow> resolve api_key (API_KEY E) = []"
  by (auto simp: absent_def resolve_def split: option.splits)

lemma list_activities_no_key:
  assumes "resolve api_key (API_KEY E) = []"
  shows "list_activities E athlete_id api_key sd ed limit iu =
           ([], Inr (Inl (if resolve athlete_id (ATHLETE_ID E) = [] then no_athlete_id else no_api_key)))"
  using assms by (simp add: list_activities_def Let_def)

lemma get_activities_no_key:
  assumes "resolve api_key (API_KEY E) = []"
  shows "get_activities E athlete_id api_key sd ed limit iu =
           ([], Inr (JStr (if resolve athlete_id (ATHLETE_ID E) = [] then no_athlete_id else no_api_key)))"
  by (simp add: get_activities_def list_activities_no_key [OF assms])

lemma get_events_no_key:
  assumes "resolve api_key (API_KEY E) = []"
  shows "get_events E athlete_id api_key sd ed =
           ([], Inr (JStr (if resolve athlete_id (ATHLETE_ID E) = [] then no_athlete_id else no_api_key)))"
  using assms by (simp add: get_events_def Let_def)

lemma get_event_by_id_no_key:
  assumes "resolve api_key (API_KEY E) = []"
  shows "get_event_by_id E event_id athlete_id api_key =
           ([], Inr (JStr (if resolve athlete_id (ATHLETE_ID E) = [] then no_athlete_id else no_api_key)))"
  using assms by (simp add: get_event_by_id_def Let_def)

lemma post_events_no_key:
  assumes "resolve api_key (API_KEY E) = []"
  shows "post_events E athlete_id api_key sd name data =
           ([], Inr (JStr (if resolve athlete_id (ATHLETE_ID E) = [] then no_athlete_id else no_api_key)))"
  using assms by (simp add: post_events_def Let_def)

lemma get_activity_details_no_key:
  assumes "resolve api_key (API_KEY E) = []"
  shows "get_activity_details E activity_id api_key = ([], Inr (JStr no_api_key))"
  using assms by (simp add: get_activity_details_def Let_def)

lemma get_activity_intervals_no_key:
  assumes "resolve api_key (API_KEY E) = []"
  shows "get_activity_intervals E activity_id api_key = ([], Inr (JStr no_api_key))"
  using assms by (simp add: get_activity_intervals_def Let_def)

lemma no_athlete:
  assumes "resolve athlete_id (ATHLETE_ID E) = []"
  shows "get_activities E athlete_id api_key sd ed limit iu = ([], Inr (JStr no_athlete_id))"
    "get_events E athlete_id api_key sd ed = ([], Inr (JStr no_athlete_id))"
    "get_event_by_id E event_id athlete_id api_key = ([], Inr (JStr no_athlete_id))"
    "post_events E athlete_id api_key sd name data = ([], Inr (JStr no_athlete_id))"
  using assms
  by (simp_all add: get_activities_def list_activities_def get_events_def get_event_by_id_def
      post_events_def Let_def)

text \<open>
  C5, as stated, fails: with the athlete id missing as well, \<open>get_activities\<close> returns
  the text about the athlete id, which does not begin with
  \<open>"Error: No api_key provided"\<close>.
\<close>

theorem missing_api_key_counterexample:
  "get_activities (sample_env\<lparr>API_KEY := [], ATHLETE_ID := []\<rparr>) None None None None 10 False
     = ([], Inr (JStr no_athlete_id))
   \<and> \<not> prefix ''Error: No api_key provided'' no_athlete_id"
  by (simp add: get_activities_def list_activities_def resolve_def sample_env_def no_athlete_id_def)

text \<open>
  C5, amended: when the \<open>api_key\<close> argument is absent or empty and the default API
  key is empty, no tool issues a request; the two activity-by-id tools return the text
  beginning \<open>"Error: No api_key provided"\<close>, and so do the four tools that take an
  athlete id when that id resolves to a non-empty value, while they return the text
  about the athlete id otherwise.
\<close>

theorem missing_api_key_no_request:
  assumes "absent api_key" and "API_KEY E = []"
  shows "get_activity_details E activity_id api_key = ([], Inr (JStr no_api_key))
     \<and> get_activity_intervals E activity_id api_key = ([], Inr (JStr no_api_key))
     \<and> get_activities E athlete_id api_key sd ed limit iu
         = ([], Inr (JStr (if resolve athlete_id (ATHLETE_ID E) = [] then no_athlete_id else no_api_key)))
     \<and> get_events E athlete_id api_key sd ed
         = ([], Inr (JStr (if resolve athlete_id (ATHLETE_ID E) = [] then no_athlete_id else no_api_key)))
     \<and> get_event_by_id E event_id athlete_id api_key
         = ([], Inr (JStr (if resolve athlete_id (ATHLETE_ID E) = [] then no_athlete_id else no_api_key)))
     \<and> post_events E athlete_id api_key sd name data
         = ([], Inr (JStr (if resolve athlete_id (ATHLETE_ID E) = [] then no_athlete_id else no_api_key)))
     \<and> prefix ''Error: No api_key provided'' no_api_key"
proof -
  from assms have r: "resolve api_key (API_KEY E) = []" by (rule absent_resolve)
  show ?thesis
    by (intro conjI get_activity_details_no_key get_activity_intervals_no_key get_activities_no_key
        get_events_no_key get_event_by_id_no_key post_events_no_key no_api_key_prefix r)
qed

theorem missing_api_key_no_request_witness:
  "absent None \<and> API_KEY (sample_env\<lparr>API_KEY := []\<rparr>) = []
   \<and> get_activities (sample_env\<lparr>API_KEY := []\<rparr>) None None None None 10 False
       = ([], Inr (JStr no_api_key))
   \<and> get_activity_details (sample_env\<lparr>API_KEY := []\<rparr>) ''a1'' None = ([], Inr (JStr no_api_key))"
proof -
  have a: "absent None" by (simp add: absent_def)
  have b: "API_KEY (sample_env\<lparr>API_KEY := []\<rparr>) = []" by simp
  have c: "resolve None (ATHLETE_ID (sample_env\<lparr>API_KEY := []\<rparr>)) \<noteq> []"
    by (simp add: resolve_def sample_env_def)
  from missing_api_key_no_request [OF a b, of "''a1''" None None None 10 False "''e1''" None None] c
  show ?thesis using a b by simp
qed

text \<open>
  C10: an explicit empty string masks the default. With \<open>athlete_id=""\<close> the four
  tools that take it return the athlete-id text, and with \<open>api_key=""\<close> every tool
  returns a missing-credential text (the API-key one once the athlete id is resolved),
  whatever the defaults are; no request is issued.
\<close>

theorem empty_credential_masks_default:
  "get_activities E (Some []) api_key sd ed limit iu = ([], Inr (JStr no_athlete_id))
   \<and> get_events E (Some []) api_key sd ed = ([], Inr (JStr no_athlete_id))
   \<and> get_event_by_id E event_id (Some []) api_key = ([], Inr (JStr no_athlete_id))
   \<and> post_events E (Some []) api_key sd name data = ([], Inr (JStr no_athlete_id))
   \<and> get_activity_details E activity_id (Some []) = ([], Inr (JStr no_api_key))
   \<and> get_activity_intervals E activity_id (Some []) = ([], Inr (JStr no_api_key))
   \<and> get_activities E athlete_id (Some []) sd ed limit iu
        = ([], Inr (JStr (if resolve athlete_id (ATHLETE_ID E) = [] then no_athlete_id else no_api_key)))
   \<and> get_events E athlete_id (Some []) sd ed
        = ([], Inr (JStr (if resolve athlete_id (ATHLETE_ID E) = [] then no_athlete_id else no_api_key)))
   \<and> get_event_by_id E event_id athlete_id (Some [])
        = ([], Inr (JStr (if resolve athlete_id (ATHLETE_ID E) = [] then no_athlete_id else no_api_key)))
   \<and> post_events E athlete_id (Some []) sd name data
        = ([], Inr (JStr (if resolve athlete_id (ATHLETE_ID E) = [] then no_athlete_id else no_api_key)))"
proof -
  have a: "resolve (Some []) (ATHLETE_ID E) = []" by (simp add: resolve_def)
  have k: "resolve (Some []) (API_KEY E) = []" by (simp add: resolve_def)
  show ?thesis
    by (intro conjI no_athlete [OF a] get_activity_details_no_key [OF k]
        get_activity_intervals_no_key [OF k] get_activities_no_key [OF k] get_events_no_key [OF k]
        get_event_by_id_no_key [OF k] post_events_no_key [OF k])
qed

theorem empty_credential_masks_default_witness:
  "get_activities sample_env (Some []) None None None 10 False = ([], Inr (JStr no_athlete_id))
   \<and> get_activities sample_env None (Some []) None None 10 False = ([], Inr (JStr no_api_key))
   \<and> API_KEY sample_env \<noteq> [] \<and> ATHLETE_ID sample_env \<noteq> []"
  using empty_credential_masks_default [of sample_env None None None 10 False "''e''" None None "''a''" None]
  by (simp add: resolve_def sample_env_def)

section \<open>The payload of \<open>post_events\<close>\<close>

text \<open>
  Every request \<open>post_events\<close> issues is the one POST carrying \<open>final_data\<close>, and the
  \<open>type\<close> and \<open>target\<close> entries of that dict are functions of the name alone.
\<close>

lemma event_type_Some:
  "event_type (Some name) =
     Inr (if str_in ''Bike'' name then ''Ride'' else if str_in ''Run'' name then ''Run'' else ''Swim'')"
  by (simp add: event_type_def name_contains_def bind_def)

lemma event_target_Some:
  "event_target (Some name) =
     Inr (if str_in ''Power'' name then ''POWER'' else if str_in ''pace'' name then ''PACE''
          else if str_in ''hr'' name then ''HR'' else ''AUTO'')"
  by (simp add: event_target_def name_contains_def bind_def)

lemma event_payload_type_target:
  assumes "event_payload E sd (Some name) data = Inr p"
  shows "\<exists>kvs. p = JDict kvs
     \<and> map_of kvs ''type'' = Some (JStr (if str_in ''Bike'' name then ''Ride''
                                           else if str_in ''Run'' name then ''Run'' else ''Swim''))
     \<and> map_of kvs ''target'' = Some (JStr (if str_in ''Power'' name then ''POWER''
                                             else if str_in ''pace'' name then ''PACE''
                                             else if str_in ''hr'' name then ''HR'' else ''AUTO''))"
  using assms unfolding event_payload_def event_type_Some event_target_Some bind_def
  by (auto split: sum.splits)

lemma post_events_requests:
  assumes "post_events E athlete_id api_key sd name data = (reqs, r)" and "req \<in> set reqs"
  shows "\<exists>url key start p. req = Request POST url key None (Some p)
           \<and> event_payload E start name data = Inr p"
proof -
  let ?a = "resolve athlete_id (ATHLETE_ID E)"
  let ?k = "resolve api_key (API_KEY E)"
  from assms have a: "?a \<noteq> []" by (auto simp: post_events_def Let_def)
  from assms a have k: "?k \<noteq> []" by (auto simp: post_events_def Let_def)
  obtain start where start: "start = (if absent sd then strftime (today E) else the sd)" by simp
  show ?thesis
  proof (cases "event_payload E start name data")
    case (Inl e)
    with assms a k start show ?thesis by (simp add: post_events_def Let_def)
  next
    case (Inr p)
    let ?req = "Request POST (''/athlete/'' @ ?a @ ''/events'') ?k None (Some p)"
    from assms(1) a k start Inr have "reqs = [?req]"
      by (simp add: post_events_def Let_def split: sum.splits if_splits)
    with assms(2) Inr show ?thesis by auto
  qed
qed



lemma post_events_type_target_general:
  assumes "post_events E athlete_id api_key start_date (Some name) data = (reqs, r)" and "req \<in> set reqs"
  shows "\<exists>url key kvs. req = Request POST url key None (Some (JDict kvs))
            \<and> map_of kvs ''type'' = Some (JStr (if str_in ''Bike'' name then ''Ride''
                                                  else if str_in ''Run'' name then ''Run'' else ''Swim''))
            \<and> map_of kvs ''target'' = Some (JStr (if str_in ''Power'' name then ''POWER''
                                                    else if str_in ''pace'' name then ''PACE''
                                                    else if str_in ''hr'' name then ''HR'' else ''AUTO''))"
proof -
  from post_events_requests [OF assms] obtain url key start p
    where req: "req = Request POST url key None (Some p)"
      and p: "event_payload E start (Some name) data = Inr p"
    by (elim exE conjE)
  from event_payload_type_target [OF p] obtain kvs
    where "p = JDict kvs"
      and "map_of kvs ''type'' = Some (JStr (if str_in ''Bike'' name then ''Ride''
                                                  else if str_in ''Run'' name then ''Run'' else ''Swim''))"
      and "map_of kvs ''target'' = Some (JStr (if str_in ''Power'' name then ''POWER''
                                                    else if str_in ''pace'' name then ''PACE''
                                                    else if str_in ''hr'' name then ''HR'' else ''AUTO''))"
    by (elim exE conjE)
  with req show ?thesis by (intro exI conjI) simp_all
qed

lemma post_events_bike_example:
  "fst (post_events sample_env None None (Some ''2025-01-14'') (Some ''Bike - VO2 Max'') (Some two_steps))
       = [Request POST ''/athlete/i12345/events'' ''secret'' None
            (Some (JDict [(''start_date_local'', JStr ''2025-01-14T00:00:00''),
                          (''category'', JStr ''WORKOUT''),
                          (''name'', JStr ''Bike - VO2 Max''),
                          (''description'', JStr (''- 15m 80%'' @ nl @ ''- 3m 110%'')),
                          (''type'', JStr ''Ride''),
                          (''target'', JStr ''AUTO''),
                          (''moving_time'', JInt 1080)]))]"
  by code_simp

lemma post_events_run_example:
  "fst (post_events sample_env None None (Some ''2025-01-14'') (Some ''Run - pace work'') (Some two_steps))
       = [Request POST ''/athlete/i12345/events'' ''secret'' None
            (Some (JDict [(''start_date_local'', JStr ''2025-01-14T00:00:00''),
                          (''category'', JStr ''WORKOUT''),
                          (''name'', JStr ''Run - pace work''),
                          (''description'', JStr (''- 15m 80%'' @ nl @ ''- 3m 110%'')),
                          (''type'', JStr ''Run''),
                          (''target'', JStr ''PACE''),
                          (''moving_time'', JInt 1080)]))]"
  by code_simp

text \<open>
  C7: for every name string, the payload \<open>post_events\<close> sends has type \<open>"Ride"\<close> if
  the name contains \<open>"Bike"\<close>, else \<open>"Run"\<close> if it contains \<open>"Run"\<close>, else \<open>"Swim"\<close>,
  and target \<open>"POWER"\<close>, \<open>"PACE"\<close>, \<open>"HR"\<close> or \<open>"AUTO"\<close> by the first of \<open>"Power"\<close>,
  \<open>"pace"\<close>, \<open>"hr"\<close> it contains; with two steps, \<open>"Bike - VO2 Max"\<close> gives type
  \<open>"Ride"\<close> and \<open>"Run - pace work"\<close> gives type \<open>"Run"\<close> and target \<open>"PACE"\<close>.
\<close>

theorem post_events_type_and_target:
  "(post_events E athlete_id api_key start_date (Some name) data = (reqs, r) \<and> req \<in> set reqs
      \<longrightarrow> (\<exists>url key kvs. req = Request POST url key None (Some (JDict kvs))
            \<and> map_of kvs ''type'' = Some (JStr (if str_in ''Bike'' name then ''Ride''
                                                  else if str_in ''Run'' name then ''Run'' else ''Swim''))
            \<and> map_of kvs ''target'' = Some (JStr (if str_in ''Power'' name then ''POWER''
                                                    else if str_in ''pace'' name then ''PACE''
                                                    else if str_in ''hr'' name then ''HR'' else ''AUTO''))))
   \<and> fst (post_events sample_env None None (Some ''2025-01-14'') (Some ''Bike - VO2 Max'') (Some two_steps))
       = [Request POST ''/athlete/i12345/events'' ''secret'' None
            (Some (JDict [(''start_date_local'', JStr ''2025-01-14T00:00:00''),
                          (''category'', JStr ''WORKOUT''),
                          (''name'', JStr ''Bike - VO2 Max''),
                          (''description'', JStr (''- 15m 80%'' @ nl @ ''- 3m 110%'')),
                          (''type'', JStr ''Ride''),
                          (''target'', JStr ''AUTO''),
                          (''moving_time'', JInt 1080)]))]
   \<and> fst (post_events sample_env None None (Some ''2025-01-14'') (Some ''Run - pace work'') (Some two_steps))
       = [Request POST ''/athlete/i12345/events'' ''secret'' None
            (Some (JDict [(''start_date_local'', JStr ''2025-01-14T00:00:00''),
                          (''category'', JStr ''WORKOUT''),
                          (''name'', JStr ''Run - pace work''),
                          (''description'', JStr (''- 15m 80%'' @ nl @ ''- 3m 110%'')),
                          (''type'', JStr ''Run''),
                          (''target'', JStr ''PACE''),
                          (''moving_time'', JInt 1080)]))]"
proof (intro conjI impI)
  assume "post_events E athlete_id api_key start_date (Some name) data = (reqs, r) \<and> req \<in> set reqs"
  then have "post_events E athlete_id api_key start_date (Some name) data = (reqs, r)"
    and "req \<in> set reqs" by (rule conjunct1, rule conjunct2)
  then show "\<exists>url key kvs. req = Request POST url key None (Some (JDict kvs))
            \<and> map_of kvs ''type'' = Some (JStr (if str_in ''Bike'' name then ''Ride''
                                                  else if str_in ''Run'' name then ''Run'' else ''Swim''))
            \<and> map_of kvs ''target'' = Some (JStr (if str_in ''Power'' name then ''POWER''
                                                    else if str_in ''pace'' name then ''PACE''
                                                    else if str_in ''hr'' name then ''HR'' else ''AUTO''))"
    by (rule post_events_type_target_general)
qed (rule post_events_bike_example post_events_run_example)+

theorem post_events_type_and_target_witness:
  "post_events sample_env None None (Some ''2025-01-14'') (Some ''Run - pace work'') (Some two_steps)
     = ([Request POST ''/athlete/i12345/events'' ''secret'' None
            (Some (JDict [(''start_date_local'', JStr ''2025-01-14T00:00:00''),
                          (''category'', JStr ''WORKOUT''),
                          (''name'', JStr ''Run - pace work''),
                          (''description'', JStr (''- 15m 80%'' @ nl @ ''- 3m 110%'')),
                          (''type'', JStr ''Run''),
                          (''target'', JStr ''PACE''),
                          (''moving_time'', JInt 1080)]))],
         Inr (JStr ''format error, verify intervals for correct event at 2025-01-14''))
   \<and> (\<exists>url key kvs.
         Request POST ''/athlete/i12345/events'' ''secret'' None
            (Some (JDict [(''start_date_local'', JStr ''2025-01-14T00:00:00''),
                          (''category'', JStr ''WORKOUT''),
                          (''name'', JStr ''Run - pace work''),
                          (''description'', JStr (''- 15m 80%'' @ nl @ ''- 3m 110%'')),
                          (''type'', JStr ''Run''),
                          (''target'', JStr ''PACE''),
                          (''moving_time'', JInt 1080)]))
           = Request POST url key None (Some (JDict kvs))
         \<and> map_of kvs ''type'' = Some (JStr ''Run'')
         \<and> map_of kvs ''target'' = Some (JStr ''PACE''))"
proof -
  let ?req = "Request POST ''/athlete/i12345/events'' ''secret'' None
            (Some (JDict [(''start_date_local'', JStr ''2025-01-14T00:00:00''),
                          (''category'', JStr ''WORKOUT''),
                          (''name'', JStr ''Run - pace work''),
                          (''description'', JStr (''- 15m 80%'' @ nl @ ''- 3m 110%'')),
                          (''type'', JStr ''Run''),
                          (''target'', JStr ''PACE''),
                          (''moving_time'', JInt 1080)]))"
  let ?r = "Inr (JStr ''format error, verify intervals for correct event at 2025-01-14'') :: exn + json"
  have h: "post_events sample_env None None (Some ''2025-01-14'') (Some ''Run - pace work'')
             (Some two_steps) = ([?req], ?r)"
    by code_simp
  have m: "?req \<in> set [?req]" by simp
  have t: "(if str_in ''Bike'' ''Run - pace work'' then ''Ride''
            else if str_in ''Run'' ''Run - pace work'' then ''Run'' else ''Swim'') = ''Run''"
    by code_simp
  have g: "(if str_in ''Power'' ''Run - pace work'' then ''POWER''
            else if str_in ''pace'' ''Run - pace work'' then ''PACE''
            else if str_in ''hr'' ''Run - pace work'' then ''HR'' else ''AUTO'') = ''PACE''"
    by code_simp
  from post_events_type_and_target
    [of sample_env None None "Some ''2025-01-14''" "''Run - pace work''" "Some two_steps" "[?req]" ?r ?req]
  have "post_events sample_env None None (Some ''2025-01-14'') (Some ''Run - pace work'')
             (Some two_steps) = ([?req], ?r) \<and> ?req \<in> set [?req]
        \<longrightarrow> (\<exists>url key kvs. ?req = Request POST url key None (Some (JDict kvs))
            \<and> map_of kvs ''type'' = Some (JStr ''Run'')
            \<and> map_of kvs ''target'' = Some (JStr ''PACE''))"
    unfolding t g by (rule conjunct1)
  then have "\<exists>url key kvs. ?req = Request POST url key None (Some (JDict kvs))
            \<and> map_of kvs ''type'' = Some (JStr ''Run'')
            \<and> map_of kvs ''target'' = Some (JStr ''PACE'')"
    using conjI [OF h m] by (rule mp)
  with h show ?thesis by (rule conjI)
qed

section \<open>Normalisation of the activities payload\<close>

lemma filter_all_dicts: "list_all is_dict xs \<Longrightarrow> filter is_dict xs = xs"
  by (induction xs) auto

text \<open>
  C4, as stated, fails: a single activity with a \<open>name\<close> that also holds a list of
  dicts is not kept as itself; the search for a list comes first and the elements of
  that list are taken for the activities.
\<close>

theorem normalize_single_activity_counterexample:
  "list_ex (has_key [(''name'', JStr ''Ride''), (''laps'', JList [JDict [(''id'', JInt 1)]])]) activity_keys
   \<and> normalize_activities (JDict [(''name'', JStr ''Ride''), (''laps'', JList [JDict [(''id'', JInt 1)]])])
       = [JDict [(''id'', JInt 1)]]
   \<and> normalize_activities (JList [JDict [(''name'', JStr ''Ride''), (''laps'', JList [JDict [(''id'', JInt 1)]])]])
       = [JDict [(''name'', JStr ''Ride''), (''laps'', JList [JDict [(''id'', JInt 1)]])]]"
  by (simp add: has_key_def activity_keys_def)

text \<open>
  C4, amended: for a list \<open>xs\<close> of activity dicts, the normalisation yields \<open>xs\<close>
  from the bare list, and from a dict whose first list-typed value is \<open>xs\<close> provided
  \<open>xs\<close> is not empty or the dict has none of the keys \<open>name\<close>, \<open>startTime\<close>,
  \<open>distance\<close>; and a single activity with one of these keys is normalised like the
  one-element list of it provided its first list-typed value, if any, holds no dict.
\<close>

theorem normalize_shapes_agree:
  assumes "list_all is_dict xs"
  shows "normalize_activities (JList xs) = xs
     \<and> (first_list kvs = Some xs \<and> (xs \<noteq> [] \<or> \<not> list_ex (has_key kvs) activity_keys)
          \<longrightarrow> normalize_activities (JDict kvs) = xs)
     \<and> (list_ex (has_key a) activity_keys
          \<and> (case first_list a of None \<Rightarrow> True | Some ys \<Rightarrow> filter is_dict ys = [])
          \<longrightarrow> normalize_activities (JDict a) = normalize_activities (JList [JDict a])
              \<and> normalize_activities (JDict a) = [JDict a])"
  using assms by (auto simp: filter_all_dicts Let_def split: option.splits)

theorem normalize_shapes_agree_witness:
  "list_all is_dict [JDict [(''name'', JStr ''Ride'')], JDict [(''name'', JStr ''Run'')]]
   \<and> normalize_activities (JList [JDict [(''name'', JStr ''Ride'')], JDict [(''name'', JStr ''Run'')]])
       = [JDict [(''name'', JStr ''Ride'')], JDict [(''name'', JStr ''Run'')]]
   \<and> normalize_activities
         (JDict [(''count'', JInt 2),
                 (''activities'', JList [JDict [(''name'', JStr ''Ride'')], JDict [(''name'', JStr ''Run'')]])])
       = [JDict [(''name'', JStr ''Ride'')], JDict [(''name'', JStr ''Run'')]]
   \<and> normalize_activities (JDict [(''name'', JStr ''Ride''), (''tags'', JList [JStr ''a''])])
       = normalize_activities (JList [JDict [(''name'', JStr ''Ride''), (''tags'', JList [JStr ''a''])]])"
proof -
  let ?xs = "[JDict [(''name'', JStr ''Ride'')], JDict [(''name'', JStr ''Run'')]]"
  let ?kvs = "[(''count'', JInt 2), (''activities'', JList ?xs)]"
  let ?a = "[(''name'', JStr ''Ride''), (''tags'', JList [JStr ''a''])]"
  have h: "list_all is_dict ?xs" by simp
  have k: "first_list ?kvs = Some ?xs \<and> (?xs \<noteq> [] \<or> \<not> list_ex (has_key ?kvs) activity_keys)" by simp
  have s: "list_ex (has_key ?a) activity_keys
      \<and> (case first_list ?a of None \<Rightarrow> True | Some ys \<Rightarrow> filter is_dict ys = [])"
    by (simp add: has_key_def activity_keys_def)
  note t = normalize_shapes_agree [OF h, of ?kvs ?a]
  from t have 1: "normalize_activities (JList ?xs) = ?xs" by (rule conjunct1)
  from t have "first_list ?kvs = Some ?xs \<and> (?xs \<noteq> [] \<or> \<not> list_ex (has_key ?kvs) activity_keys)
          \<longrightarrow> normalize_activities (JDict ?kvs) = ?xs" by (rule conjunct2 [THEN conjunct1])
  then have 2: "normalize_activities (JDict ?kvs) = ?xs" using k by (rule mp)
  from t have "list_ex (has_key ?a) activity_keys
      \<and> (case first_list ?a of None \<Rightarrow> True | Some ys \<Rightarrow> filter is_dict ys = [])
      \<longrightarrow> normalize_activities (JDict ?a) = normalize_activities (JList [JDict ?a])
              \<and> normalize_activities (JDict ?a) = [JDict ?a]" by (rule conjunct2 [THEN conjunct2])
  then have "normalize_activities (JDict ?a) = normalize_activities (JList [JDict ?a])
              \<and> normalize_activities (JDict ?a) = [JDict ?a]" using s by (rule mp)
  then have 3: "normalize_activities (JDict ?a) = normalize_activities (JList [JDict ?a])"
    by (rule conjunct1)
  from h 1 2 3 show ?thesis by (intro conjI)
qed

section \<open>Filtering of unnamed activities\<close>

lemma normalize_all_dicts: "a \<in> set (normalize_activities v) \<Longrightarrow> is_dict a"
  by (cases v) (auto simp: Let_def split: option.splits if_splits)

lemma is_named_not_unnamed: "is_named a \<Longrightarrow> \<not> unnamed a"
  by (cases a) (auto simp: dict_get_def split: option.splits)

lemma fetch_more_named:
  assumes "fetch_more E athlete_id api_key sd api_limit acts = (reqs, Inr sel)"
    and "\<forall>a\<in>set acts. is_named a"
  shows "\<forall>a\<in>set sel. is_named a"
proof -
  from assms(1) consider "sel = acts" | xs where "sel = acts @ filter (\<lambda>a. is_dict a \<and> is_named a) xs"
    unfolding fetch_more_def Let_def
    by (simp split: sum.splits if_splits json.splits) blast+
  then show ?thesis using assms(2) by cases auto
qed

lemma select_activities_named:
  assumes "select_activities E athlete_id api_key sd api_limit limit False acts = (reqs, Inr sel)"
  shows "\<forall>a\<in>set sel. is_named a"
proof (cases "int (length (filter is_named acts)) < limit")
  case True
  with assms have "fetch_more E athlete_id api_key sd api_limit (filter is_named acts) = (reqs, Inr sel)"
    by (simp add: select_activities_def Let_def)
  then show ?thesis by (rule fetch_more_named) simp
next
  case False
  with assms have "sel = filter is_named acts" by (simp add: select_activities_def Let_def)
  then show ?thesis by simp
qed

lemma set_py_slice_to: "set (py_slice_to xs n) \<subseteq> set xs"
  by (auto simp: py_slice_to_def dest: in_set_takeD)

lemma list_activities_shown:
  assumes "list_activities E athlete_id api_key sd ed limit iu = (reqs, Inr (Inr shown))"
  shows "\<exists>aid key start api_limit acts more sel.
           select_activities E aid key start api_limit limit iu acts = (more, Inr sel)
           \<and> shown = py_slice_to sel limit"
proof -
  let ?a = "resolve athlete_id (ATHLETE_ID E)"
  let ?k = "resolve api_key (API_KEY E)"
  from assms have a: "?a \<noteq> []" by (auto simp: list_activities_def Let_def)
  from assms a have k: "?k \<noteq> []" by (auto simp: list_activities_def Let_def)
  from assms a k obtain start where st: "default_start E sd = Inr start"
    by (cases "default_start E sd") (simp_all add: list_activities_def Let_def)
  let ?newest = "if absent ed then strftime (today E) else the ed"
  let ?lim = "if \<not> iu then limit * 3 else limit"
  let ?req = "activities_request ?a ?k start ?newest ?lim"
  from assms a k st obtain result where res: "gateway E ?req = Inr result"
    by (cases "gateway E ?req") (simp_all add: list_activities_def Let_def)
  let ?acts = "normalize_activities result"
  obtain more r where sel: "select_activities E ?a ?k start ?lim limit iu ?acts = (more, r)"
    by force
  from assms a k st res sel obtain s where "r = Inr s" and "shown = py_slice_to s limit"
    by (cases r) (simp_all add: list_activities_def Let_def split: if_splits)
  with sel show ?thesis by blast
qed

text \<open>
  C3: with \<open>include_unnamed=false\<close>, whatever the gateway returns and whatever the
  limit, none of the activities \<open>get_activities\<close> renders has a missing name, an
  empty name or the name \<open>"Unnamed"\<close>, those added by the second fetch included; the
  text returned is the rendering of exactly these activities.
\<close>

theorem unnamed_never_shown:
  assumes "list_activities E athlete_id api_key start_date end_date limit False = (reqs, Inr (Inr shown))"
  shows "(\<forall>a\<in>set shown. \<not> unnamed a)
     \<and> get_activities E athlete_id api_key start_date end_date limit False
         = (reqs, Inr (JStr (render_activities E shown)))"
proof
  from list_activities_shown [OF assms] obtain aid key start api_limit acts more sel
    where "select_activities E aid key start api_limit limit False acts = (more, Inr sel)"
      and sh: "shown = py_slice_to sel limit"
    by (elim exE conjE)
  then have "\<forall>a\<in>set sel. is_named a" using select_activities_named by blast
  with sh set_py_slice_to [of sel limit] show "\<forall>a\<in>set shown. \<not> unnamed a"
    using is_named_not_unnamed by blast
  show "get_activities E athlete_id api_key start_date end_date limit False
         = (reqs, Inr (JStr (render_activities E shown)))"
    by (simp add: get_activities_def assms)
qed

theorem unnamed_never_shown_witness:
  "list_activities mixed_env None None (Some ''2025-01-14'') None 3 False
     = ([activities_request ''i12345'' ''secret'' ''2025-01-14'' ''2025-01-14'' 9,
         activities_request ''i12345'' ''secret'' ''2024-11-15'' ''2025-01-13'' 9],
        Inr (Inr [JDict [(''name'', JStr ''Ride'')], JDict [(''name'', JStr ''Ride'')]]))
   \<and> \<not> unnamed (JDict [(''name'', JStr ''Ride'')])"
proof -
  have h: "list_activities mixed_env None None (Some ''2025-01-14'') None 3 False
     = ([activities_request ''i12345'' ''secret'' ''2025-01-14'' ''2025-01-14'' 9,
         activities_request ''i12345'' ''secret'' ''2024-11-15'' ''2025-01-13'' 9],
        Inr (Inr [JDict [(''name'', JStr ''Ride'')], JDict [(''name'', JStr ''Ride'')]]))"
    by code_simp
  from unnamed_never_shown [OF h]
  have "\<forall>a\<in>set [JDict [(''name'', JStr ''Ride'')], JDict [(''name'', JStr ''Ride'')]]. \<not> unnamed a"
    by (rule conjunct1)
  moreover have "JDict [(''name'', JStr ''Ride'')]
      \<in> set [JDict [(''name'', JStr ''Ride'')], JDict [(''name'', JStr ''Ride'')]]"
    by (rule list.set_intros(1))
  ultimately have "\<not> unnamed (JDict [(''name'', JStr ''Ride'')])" by (rule bspec)
  with h show ?thesis by (rule conjI)
qed

section \<open>Rendered dates and their order\<close>

text \<open>
  On valid dates from the year 1000 on, where the year has four digits, the order of
  the rendered strings is the order of the dates; and going back in time gives an
  earlier valid date. So the guard of the second fetch, which compares the two
  rendered ends of the window, holds whenever the window starts in the year 1000 or
  later.
\<close>

lemma of_char_digit: "d < 10 \<Longrightarrow> (of_char (digit_char d) :: nat) = 48 + d"
  by (simp add: digit_char_def)

lemma digit_char_eq: "a < 10 \<Longrightarrow> b < 10 \<Longrightarrow> digit_char a = digit_char b \<longleftrightarrow> a = b"
  by (simp add: digit_char_def)

lemma str_less_same_prefix: "str_less (xs @ ys) (xs @ zs) = str_less ys zs"
  by (induction xs) simp_all

lemma str_less_append:
  "str_less xs ys \<Longrightarrow> length xs = length ys \<Longrightarrow> str_less (xs @ u) (ys @ v)"
  by (induction xs ys rule: str_less.induct) auto

lemma digits_split:
  fixes a b :: nat
  assumes "a < b"
  shows "a div 10 < b div 10 \<or> (a div 10 = b div 10 \<and> a mod 10 < b mod 10)"
proof (cases "a div 10 = b div 10")
  case True
  have "a = 10 * (a div 10) + a mod 10" "b = 10 * (b div 10) + b mod 10" by simp_all
  with True assms show ?thesis by linarith
next
  case False
  from assms have "a div 10 \<le> b div 10" by (intro div_le_mono) simp
  with False show ?thesis by linarith
qed

lemma two_digits_less:
  assumes "a < b" "b < 100"
  shows "str_less (two_digits a) (two_digits b)"
proof -
  from assms have la: "a div 10 < 10" and lb: "b div 10 < 10" by simp_all
  have ra: "a mod 10 < 10" and rb: "b mod 10 < 10" by simp_all
  from digits_split [OF assms(1)] show ?thesis
  proof
    assume "a div 10 < b div 10"
    then show ?thesis
      by (simp add: two_digits_def of_char_digit la lb)
  next
    assume h: "a div 10 = b div 10 \<and> a mod 10 < b mod 10"
    then show ?thesis
      by (simp add: two_digits_def of_char_digit la lb ra rb)
  qed
qed

lemma hundreds_split:
  fixes a b :: nat
  assumes "a < b"
  shows "a div 100 < b div 100 \<or> (a div 100 = b div 100 \<and> a mod 100 < b mod 100)"
proof (cases "a div 100 = b div 100")
  case True
  have "a = 100 * (a div 100) + a mod 100" "b = 100 * (b div 100) + b mod 100" by simp_all
  with True assms show ?thesis by linarith
next
  case False
  from assms have "a div 100 \<le> b div 100" by (intro div_le_mono) simp
  with False show ?thesis by linarith
qed

lemma four_digits_split: "four_digits n = two_digits (n div 100) @ two_digits (n mod 100)"
proof -
  have e: "n mod 100 = 10 * (n div 10 mod 10) + n mod 10"
    using mod_mult2_eq [of n 10 10] by simp
  have 1: "n mod 100 div 10 = n div 10 mod 10" unfolding e by simp
  have 2: "n mod 100 mod 10 = n mod 10" unfolding e by simp
  have 3: "n div 100 div 10 = n div 1000" using div_mult2_eq [of n 100 10] by simp
  have 4: "n div 10 mod 10 mod 10 = n div 10 mod 10" by simp
  show ?thesis by (simp only: four_digits_def two_digits_def 1 2 3 4 append.simps)
qed

lemma length_digits [simp]: "length (four_digits n) = 4" "length (two_digits n) = 2"
  by (simp_all add: four_digits_def two_digits_def)

lemma four_digits_less:
  assumes "a < b" "b < 10000"
  shows "str_less (four_digits a) (four_digits b)"
proof -
  from hundreds_split [OF assms(1)] show ?thesis
  proof
    assume h: "a div 100 < b div 100"
    from assms(2) have "b div 100 < 100" by simp
    with h have "str_less (two_digits (a div 100)) (two_digits (b div 100))"
      by (rule two_digits_less)
    then show ?thesis unfolding four_digits_split by (rule str_less_append) simp
  next
    assume h: "a div 100 = b div 100 \<and> a mod 100 < b mod 100"
    have "b mod 100 < 100" by simp
    with h have "str_less (two_digits (a mod 100)) (two_digits (b mod 100))"
      by (intro two_digits_less) simp_all
    then show ?thesis unfolding four_digits_split using h by (simp only: str_less_same_prefix)
  qed
qed

lemma show_nat_four:
  assumes "1000 \<le> n" "n < 10000"
  shows "show_nat n = four_digits n"
proof -
  have h: "n div 10 div 10 = n div 100" "n div 10 div 10 div 10 = n div 1000"
    using div_mult2_eq [of n 10 10] div_mult2_eq [of n 100 10] by simp_all
  from assms have big: "\<not> n < 10" "\<not> n div 10 < 10" "\<not> n div 100 < 10" "n div 1000 < 10"
    by simp_all
  have 1: "show_nat n = show_nat (n div 10) @ [digit_char (n mod 10)]"
    using big(1) by (subst show_nat.simps) simp
  have 2: "show_nat (n div 10) = show_nat (n div 100) @ [digit_char (n div 10 mod 10)]"
    using big(2) by (subst show_nat.simps) (simp add: h)
  have 3: "show_nat (n div 100) = show_nat (n div 1000) @ [digit_char (n div 100 mod 10)]"
    using big(3) by (subst show_nat.simps) (simp add: h [symmetric])
  have 4: "show_nat (n div 1000) = [digit_char (n div 1000)]"
    using big(4) by (subst show_nat.simps) simp
  from big(4) show ?thesis by (simp add: 1 2 3 4 four_digits_def)
qed

lemma strftime_four:
  "1000 \<le> y \<Longrightarrow> y < 10000 \<Longrightarrow>
   strftime (y, m, d) = four_digits y @ ''-'' @ two_digits m @ ''-'' @ two_digits d"
  by (simp add: show_nat_four)

lemma strftime_less:
  assumes "valid_date a" "valid_date b" "date_less a b" "1000 \<le> fst a"
  shows "str_less (strftime a) (strftime b)"
proof -
  obtain y m d where a: "a = (y, m, d)" by (cases a)
  obtain y' m' d' where b: "b = (y', m', d')" by (cases b)
  from assms(2) have yb: "y' < 10000" and bm: "m' < 100"
    by (simp_all add: b)
  from assms(1) have ya: "y < 10000" by (simp add: a)
  from assms(4) have la: "1000 \<le> y" by (simp add: a)
  from assms(3) have "y \<le> y'" by (auto simp: a b)
  with la have lb: "1000 \<le> y'" by simp
  note sa = strftime_four [OF la ya, of m d]
  note sb = strftime_four [OF lb yb, of m' d']
  from assms(2) have bd: "d' < 100" by (auto simp: b days_in_month_def split: if_splits)
  from assms(3) consider "y < y'" | "y = y'" "m < m'" | "y = y'" "m = m'" "d < d'"
    by (auto simp: a b)
  then show ?thesis
  proof cases
    case 1
    then have "str_less (four_digits y) (four_digits y')" using yb by (rule four_digits_less)
    then show ?thesis unfolding a b sa sb by (rule str_less_append) simp
  next
    case 2
    then have "str_less (two_digits m) (two_digits m')" using bm by (intro two_digits_less)
    then have "str_less (two_digits m @ ''-'' @ two_digits d) (two_digits m' @ ''-'' @ two_digits d')"
      by (rule str_less_append) simp
    then have "str_less (''-'' @ two_digits m @ ''-'' @ two_digits d)
                        (''-'' @ two_digits m' @ ''-'' @ two_digits d')"
      by (simp only: str_less_same_prefix)
    then show ?thesis unfolding a b 2(1) strftime_four [OF lb yb]
      by (simp only: str_less_same_prefix)
  next
    case 3
    then have "str_less (two_digits d) (two_digits d')" using bd by (intro two_digits_less)
    then have "str_less (''-'' @ two_digits m' @ ''-'' @ two_digits d)
                        (''-'' @ two_digits m' @ ''-'' @ two_digits d')"
      by (simp only: str_less_same_prefix append_assoc [symmetric])
    then show ?thesis unfolding a b 3(1,2) strftime_four [OF lb yb]
      by (simp only: str_less_same_prefix)
  qed
qed

lemma days_in_month_bounds: "28 \<le> days_in_month y m" "days_in_month y m \<le> 31"
  by (simp_all add: days_in_month_def)

lemma prev_day_valid:
  assumes "valid_date d" "prev_day d = Some p"
  shows "valid_date p \<and> date_less p d"
proof -
  obtain y m dd where d: "d = (y, m, dd)" by (cases d)
  have "1 \<le> days_in_month y (m - 1)" using days_in_month_bounds(1) [of y "m - 1"] by simp
  with assms show ?thesis
    by (auto simp: d days_in_month_def split: if_splits)
qed

lemma date_less_trans: "date_less a b \<Longrightarrow> date_less b c \<Longrightarrow> date_less a c"
  by (cases a, cases b, cases c) auto

lemma minus_days_valid:
  "valid_date d \<Longrightarrow> minus_days n d = Some p \<Longrightarrow> valid_date p \<and> (0 < n \<longrightarrow> date_less p d)"
proof (induction n arbitrary: d)
  case 0
  then show ?case by simp
next
  case (Suc n)
  from Suc.prems(2) obtain q where q: "prev_day d = Some q" and r: "minus_days n q = Some p"
    by (auto split: option.splits)
  from prev_day_valid [OF Suc.prems(1) q] have vq: "valid_date q" and lq: "date_less q d" by simp_all
  from Suc.IH [OF vq r] have "valid_date p" and "0 < n \<longrightarrow> date_less p q" by simp_all
  moreover have "n = 0 \<Longrightarrow> p = q" using r by simp
  ultimately show ?case using lq date_less_trans by (cases "n = 0") auto
qed

lemma fromisoformat_valid: "fromisoformat other s = Some d \<Longrightarrow> valid_date d"
  by (auto simp: fromisoformat_def Let_def split: if_splits option.splits)

lemma minus_days_60:
  assumes "minus_days 60 d = Some a"
  shows "\<exists>b. prev_day d = Some b \<and> minus_days 59 b = Some a \<and> minus_days 1 d = Some b"
proof -
  have n: "(60::nat) = Suc 59" by arith
  have e: "minus_days (Suc 59) d = (case prev_day d of None \<Rightarrow> None | Some p \<Rightarrow> minus_days 59 p)"
    by (rule minus_days.simps(2))
  from assms have s: "(case prev_day d of None \<Rightarrow> None | Some p \<Rightarrow> minus_days 59 p) = Some a"
    unfolding n e .
  show ?thesis
  proof (cases "prev_day d")
    case None
    with s show ?thesis by (simp only: option.case) simp
  next
    case (Some b)
    with s have "minus_days 59 b = Some a" by (simp only: option.case)
    moreover have "minus_days (Suc 0) d = Some b"
      by (simp only: minus_days.simps Some option.case)
    ultimately show ?thesis using Some by (simp only: One_nat_def) blast
  qed
qed

lemma window_guard:
  assumes "valid_date d" "minus_days 60 d = Some a" "prev_day d = Some b" "1000 \<le> fst a"
  shows "str_less (strftime a) (strftime b)"
proof -
  from minus_days_60 [OF assms(2)] assms(3) have r: "minus_days 59 b = Some a" by auto
  from prev_day_valid [OF assms(1,3)] have vb: "valid_date b" by simp
  from minus_days_valid [OF vb r] have "valid_date a" "date_less a b" by simp_all
  then show ?thesis using vb assms(4) by (intro strftime_less)
qed

text \<open>
  A rendered valid date from the year 1000 on parses back to itself; so the default
  start date, thirty days before today, is a date \<open>fromisoformat\<close> accepts.
\<close>

lemma digit_val_char: "d < 10 \<Longrightarrow> digit_val (digit_char d) = d"
  by (simp add: digit_val_def digit_char_def)

lemma is_digit_char: "d < 10 \<Longrightarrow> is_digit (digit_char d)"
  by (simp add: is_digit_def digit_char_def)

lemma dec_val_two: "n < 100 \<Longrightarrow> dec_val (two_digits n) = n"
proof -
  assume "n < 100"
  then have "n div 10 < 10" by simp
  then show ?thesis
    by (simp add: dec_val_def two_digits_def digit_val_char)
qed

lemma dec_val_four: "n < 10000 \<Longrightarrow> dec_val (four_digits n) = n"
proof -
  assume n: "n < 10000"
  then have a: "n div 100 < 100" by simp
  have b: "n mod 100 < 100" by simp
  from a have a1: "n div 100 div 10 < 10" by simp
  have "dec_val (two_digits (n div 100) @ two_digits (n mod 100))
          = 100 * dec_val (two_digits (n div 100)) + dec_val (two_digits (n mod 100))"
    by (simp add: dec_val_def two_digits_def)
  then show ?thesis
    by (simp add: four_digits_split dec_val_two [OF a] dec_val_two [OF b])
qed

lemma all_digits_two: "list_all is_digit (two_digits n)"
  by (simp add: two_digits_def is_digit_char)

lemma all_digits_four: "list_all is_digit (four_digits n)"
  by (simp add: four_digits_def is_digit_char)

lemma fromisoformat_chars:
  assumes "list_all is_digit [a, b, c, e]" "list_all is_digit [g, h]" "list_all is_digit [i, j]"
    and "valid_date (dec_val [a, b, c, e], dec_val [g, h], dec_val [i, j])"
  shows "fromisoformat other [a, b, c, e, CHR ''-'', g, h, CHR ''-'', i, j]
           = Some (dec_val [a, b, c, e], dec_val [g, h], dec_val [i, j])"
  using assms by (simp add: fromisoformat_def date_only_def del: valid_date.simps)

lemma fromisoformat_strftime:
  assumes "valid_date dt" "1000 \<le> fst dt"
  shows "fromisoformat other (strftime dt) = Some dt"
proof -
  obtain y m d where dt: "dt = (y, m, d)" by (cases dt)
  from assms have y: "y < 10000" and m: "m < 100" by (simp_all add: dt)
  from assms(2) have ly: "1000 \<le> y" by (simp add: dt)
  from assms have d: "d < 100" using days_in_month_bounds(2) [of y m] by (simp add: dt)
  obtain a b c e where f: "four_digits y = [a, b, c, e]" by (simp add: four_digits_def)
  obtain g h where t: "two_digits m = [g, h]" by (simp add: two_digits_def)
  obtain i j where u: "two_digits d = [i, j]" by (simp add: two_digits_def)
  have s: "strftime (y, m, d) = [a, b, c, e, CHR ''-'', g, h, CHR ''-'', i, j]"
    by (simp only: strftime_four [OF ly y] f t u append.simps)
  have dg: "list_all is_digit [a, b, c, e]" "list_all is_digit [g, h]" "list_all is_digit [i, j]"
    using all_digits_four [of y] all_digits_two [of m] all_digits_two [of d]
    by (simp_all only: f t u)
  have dv: "dec_val [a, b, c, e] = y" "dec_val [g, h] = m" "dec_val [i, j] = d"
    using dec_val_four [OF y] dec_val_two [OF m] dec_val_two [OF d] by (simp_all only: f t u)
  from assms(1) have "valid_date (dec_val [a, b, c, e], dec_val [g, h], dec_val [i, j])"
    by (simp only: dv dt)
  from fromisoformat_chars [OF dg this, of other] show ?thesis unfolding dt s dv .
qed

lemma default_start_parses:
  assumes "valid_date (today E)" "absent start_date" "default_start E start_date = Inr start"
  shows "\<exists>D. minus_days 30 (today E) = Some D
            \<and> (1000 \<le> fst D \<longrightarrow> fromisoformat other start = Some D)"
proof -
  from assms(2,3) obtain D where m: "minus_days 30 (today E) = Some D" and s: "start = strftime D"
    by (auto simp: default_start_def date_minus_def bind_def split: option.splits)
  from minus_days_valid [OF assms(1) m] have "valid_date D" by simp
  then have "1000 \<le> fst D \<longrightarrow> fromisoformat other (strftime D) = Some D"
    using fromisoformat_strftime by blast
  with m s show ?thesis by blast
qed

section \<open>The supplementary fetch of \<open>get_activities\<close>\<close>

lemma fetch_more_window:
  assumes "fromisoformat (fromisoformat_other E) start = Some D"
    "minus_days 60 D = Some older_start" "prev_day D = Some older_end"
    "1000 \<le> fst older_start"
  shows "fetch_more E aid key start api_limit acts =
     (case gateway E (activities_request aid key (strftime older_start) (strftime older_end) api_limit) of
        Inl e \<Rightarrow> ([activities_request aid key (strftime older_start) (strftime older_end) api_limit], Inl e)
      | Inr more_result \<Rightarrow>
          (case more_result of
             JList xs \<Rightarrow>
               ([activities_request aid key (strftime older_start) (strftime older_end) api_limit],
                Inr (acts @ filter (\<lambda>a. is_dict a \<and> is_named a) xs))
           | _ \<Rightarrow>
               ([activities_request aid key (strftime older_start) (strftime older_end) api_limit],
                Inr acts)))"
proof -
  from minus_days_60 [OF assms(2)] assms(3) have one: "minus_days 1 D = Some older_end" by auto
  have g: "str_less (strftime older_start) (strftime older_end)"
    using fromisoformat_valid [OF assms(1)] assms(2,3,4) by (rule window_guard)
  show ?thesis
    by (simp only: fetch_more_def parse_date_def date_minus_def assms(1,2) one g
        option.case sum.case if_True Let_def)
qed

lemma list_activities_after_first:
  assumes "resolve athlete_id (ATHLETE_ID E) = aid" "aid \<noteq> []"
    "resolve api_key (API_KEY E) = key" "key \<noteq> []"
    "default_start E start_date = Inr start"
    "newest = (if absent end_date then strftime (today E) else the end_date)"
    "api_limit = (if \<not> iu then limit * 3 else limit)"
    "gateway E (activities_request aid key start newest api_limit) = Inr result"
    "\<not> is_error result" "truthy result" "normalize_activities result \<noteq> []"
  shows "list_activities E athlete_id api_key start_date end_date limit iu =
     (case select_activities E aid key start api_limit limit iu (normalize_activities result) of
        (extra, Inl e) \<Rightarrow> (activities_request aid key start newest api_limit # extra, Inl e)
      | (extra, Inr selected) \<Rightarrow>
          if py_slice_to selected limit = [] then
            (activities_request aid key start newest api_limit # extra,
             Inr (Inl (if iu then no_valid_activities aid else no_named_activities aid)))
          else (activities_request aid key start newest api_limit # extra,
                Inr (Inr (py_slice_to selected limit))))"
  using assms(2,4,8-11) unfolding list_activities_def assms(1,3,5) Let_def assms(6,7) [symmetric]
  by (simp del: normalize_activities.simps split: prod.splits sum.splits)

lemma py_slice_to_short: "int (length xs) < n \<Longrightarrow> py_slice_to xs n = xs"
  by (simp add: py_slice_to_def)

lemma py_slice_to_Nil: "py_slice_to [] n = []"
  by (simp add: py_slice_to_def)

text \<open>
  C8, as stated, fails: with fewer than \<open>limit\<close> named activities left, no second
  request is issued when the start date is not a date (\<open>fromisoformat\<close> raises
  \<open>ValueError\<close>, which leaves the tool), when the date 60 days earlier does not exist
  (\<open>OverflowError\<close>), or when the window starts before the year 1000, where the
  rendered start \<open>"999-11-16"\<close> is not below the rendered end \<open>"1000-01-14"\<close> and the
  guard skips the fetch.
\<close>

theorem supplementary_fetch_counterexample:
  "gateway mixed_env (activities_request ''i12345'' ''secret'' ''last week'' ''2025-01-14'' 9)
     = Inr (JList [JDict [(''name'', JStr ''Ride'')], JDict [(''name'', JStr ''Unnamed'')],
                   JDict [(''id'', JInt 7)], JDict [(''name'', JStr [])]])
   \<and> int (length (filter is_named (normalize_activities
         (JList [JDict [(''name'', JStr ''Ride'')], JDict [(''name'', JStr ''Unnamed'')],
                 JDict [(''id'', JInt 7)], JDict [(''name'', JStr [])]])))) < 3
   \<and> list_activities mixed_env None None (Some ''last week'') None 3 False
       = ([activities_request ''i12345'' ''secret'' ''last week'' ''2025-01-14'' 9],
          Inl ValueError)
   \<and> list_activities mixed_env None None (Some ''0001-01-15'') None 3 False
       = ([activities_request ''i12345'' ''secret'' ''0001-01-15'' ''2025-01-14'' 9],
          Inl OverflowError)
   \<and> list_activities mixed_env None None (Some ''1000-01-15'') None 3 False
       = ([activities_request ''i12345'' ''secret'' ''1000-01-15'' ''2025-01-14'' 9],
          Inr (Inr [JDict [(''name'', JStr ''Ride'')]]))"
  by code_simp

text \<open>
  C8, amended: in \<open>get_activities\<close> with \<open>include_unnamed=false\<close>, when
  \<open>fromisoformat\<close> accepts the start date as a date \<open>D\<close>, the date 60 days before \<open>D\<close>
  exists and lies in the year 1000 or later, and fewer than \<open>limit\<close> named
  activities remain after the filter, exactly one more request is issued, for the
  window from \<open>D\<close> minus 60 days to the day before \<open>D\<close>; a list it returns is
  filtered in the same way and appended before the cut to \<open>limit\<close>; any other value
  it returns, an error envelope included, appends nothing and the call still returns
  its text.
\<close>

theorem supplementary_fetch:
  assumes "resolve athlete_id (ATHLETE_ID E) = aid" and "aid \<noteq> []"
    and "resolve api_key (API_KEY E) = key" and "key \<noteq> []"
    and "default_start E start_date = Inr start"
    and "newest = (if absent end_date then strftime (today E) else the end_date)"
    and "fromisoformat (fromisoformat_other E) start = Some D"
    and "minus_days 60 D = Some older_start"
    and "prev_day D = Some older_end"
    and "1000 \<le> fst older_start"
    and "gateway E (activities_request aid key start newest (limit * 3)) = Inr result"
    and "\<not> is_error result" and "truthy result" and "normalize_activities result \<noteq> []"
    and "named = filter is_named (normalize_activities result)"
    and "int (length named) < limit"
    and "req1 = activities_request aid key start newest (limit * 3)"
    and "req2 = activities_request aid key (strftime older_start) (strftime older_end) (limit * 3)"
  shows "fst (list_activities E athlete_id api_key start_date end_date limit False) = [req1, req2]
     \<and> (gateway E req2 = Inr (JList xs) \<longrightarrow>
          list_activities E athlete_id api_key start_date end_date limit False
            = ([req1, req2],
               Inr (if py_slice_to (named @ filter (\<lambda>a. is_dict a \<and> is_named a) xs) limit = []
                    then Inl (no_named_activities aid)
                    else Inr (py_slice_to (named @ filter (\<lambda>a. is_dict a \<and> is_named a) xs) limit))))
     \<and> (gateway E req2 = Inr v \<and> \<not> is_list v \<longrightarrow>
          list_activities E athlete_id api_key start_date end_date limit False
            = ([req1, req2],
               Inr (if named = [] then Inl (no_named_activities aid) else Inr named)))"
proof -
  have lim: "limit * 3 = (if \<not> False then limit * 3 else limit)" by simp
  note first = list_activities_after_first
    [OF assms(1-6) lim assms(11-14), folded assms(17)]
  have sel: "select_activities E aid key start (limit * 3) limit False (normalize_activities result)
      = fetch_more E aid key start (limit * 3) named"
    using assms(16) by (simp add: select_activities_def Let_def assms(15) del: normalize_activities.simps)
  note more = fetch_more_window [OF assms(7-9) assms(10), of aid key "limit * 3" named, folded assms(18)]
  show ?thesis
  proof (cases "gateway E req2")
    case (Inl e)
    then show ?thesis by (simp add: first sel more)
  next
    case (Inr w)
    show ?thesis
    proof (cases w)
      case (JList ys)
      with Inr show ?thesis by (auto simp: first sel more)
    qed (use Inr in \<open>auto simp: first sel more py_slice_to_short [OF assms(16)] py_slice_to_Nil\<close>)
  qed
qed

theorem supplementary_fetch_witness:
  "fromisoformat (fromisoformat_other window_env) ''2025-01-14'' = Some (2025, 1, 14)
   \<and> minus_days 60 (2025, 1, 14) = Some (2024, 11, 15)
   \<and> prev_day (2025, 1, 14) = Some (2025, 1, 13)
   \<and> gateway window_env (activities_request ''i12345'' ''secret'' ''2025-01-14'' ''2025-01-14'' (3 * 3))
       = Inr (JList [JDict [(''name'', JStr ''Ride'')], JDict [(''name'', JStr ''Unnamed'')]])
   \<and> int (length [JDict [(''name'', JStr ''Ride'')]]) < 3
   \<and> gateway window_env (activities_request ''i12345'' ''secret'' ''2024-11-15'' ''2025-01-13'' (3 * 3))
       = Inr (message_envelope ''Request error: timed out'')
   \<and> \<not> is_list (message_envelope ''Request error: timed out'')
   \<and> list_activities window_env None None (Some ''2025-01-14'') None 3 False
       = ([activities_request ''i12345'' ''secret'' ''2025-01-14'' ''2025-01-14'' (3 * 3),
           activities_request ''i12345'' ''secret'' ''2024-11-15'' ''2025-01-13'' (3 * 3)],
          Inr (Inr [JDict [(''name'', JStr ''Ride'')]]))"
proof -
  let ?result = "JList [JDict [(''name'', JStr ''Ride'')], JDict [(''name'', JStr ''Unnamed'')]]"
  let ?named = "[JDict [(''name'', JStr ''Ride'')]]"
  let ?req1 = "activities_request ''i12345'' ''secret'' ''2025-01-14'' ''2025-01-14'' (3 * 3)"
  let ?req2 = "activities_request ''i12345'' ''secret'' ''2024-11-15'' ''2025-01-13'' (3 * 3)"
  let ?v = "message_envelope ''Request error: timed out''"
  have h1: "resolve None (ATHLETE_ID window_env) = ''i12345''" by code_simp
  have h2: "''i12345'' \<noteq> []" by simp
  have h3: "resolve None (API_KEY window_env) = ''secret''" by code_simp
  have h4: "''secret'' \<noteq> []" by simp
  have h5: "default_start window_env (Some ''2025-01-14'') = Inr ''2025-01-14''" by code_simp
  have h6: "''2025-01-14'' = (if absent None then strftime (today window_env) else the None)"
    by code_simp
  have h7: "fromisoformat (fromisoformat_other window_env) ''2025-01-14'' = Some (2025, 1, 14)"
    by code_simp
  have hy: "1000 \<le> fst ((2024, 11, 15) :: date)" by simp
  have h8: "minus_days 60 (2025, 1, 14) = Some (2024, 11, 15)" by code_simp
  have h9: "prev_day (2025, 1, 14) = Some (2025, 1, 13)" by code_simp
  have h10: "gateway window_env ?req1 = Inr ?result" by code_simp
  have h11: "\<not> is_error ?result" by simp
  have h12: "truthy ?result" by simp
  have h13: "normalize_activities ?result \<noteq> []" by simp
  have h14: "?named = filter is_named (normalize_activities ?result)" by code_simp
  have h15: "int (length ?named) < 3" by simp
  have h16: "?req1 = activities_request ''i12345'' ''secret'' ''2025-01-14'' ''2025-01-14'' (3 * 3)"
    by (rule refl)
  have h17: "?req2 = activities_request ''i12345'' ''secret'' (strftime (2024, 11, 15))
               (strftime (2025, 1, 13)) (3 * 3)"
    by code_simp
  have g2: "gateway window_env ?req2 = Inr ?v" by code_simp
  have nl: "\<not> is_list ?v" by (simp add: message_envelope_def)
  note t = supplementary_fetch
    [OF h1 h2 h3 h4 h5 h6 h7 h8 h9 hy h10 h11 h12 h13 h14 h15 h16 h17, of "[]" ?v]
  from t have "gateway window_env ?req2 = Inr ?v \<and> \<not> is_list ?v \<longrightarrow>
      list_activities window_env None None (Some ''2025-01-14'') None 3 False
        = ([?req1, ?req2], Inr (if ?named = [] then Inl (no_named_activities ''i12345'') else Inr ?named))"
    by (rule conjunct2 [THEN conjunct2])
  then have "list_activities window_env None None (Some ''2025-01-14'') None 3 False
        = ([?req1, ?req2], Inr (if ?named = [] then Inl (no_named_activities ''i12345'') else Inr ?named))"
    using conjI [OF g2 nl] by (rule mp)
  then have r: "list_activities window_env None None (Some ''2025-01-14'') None 3 False
        = ([?req1, ?req2], Inr (Inr ?named))"
    by simp
  from h7 h8 h9 h10 h15 g2 nl r show ?thesis by (intro conjI)
qed

end
